theory Spec2Isabelle
  imports Complex_Main
begin

section \<open>Go values used by the metric and evaluation code\<close>

text \<open>
  A Go \<^verbatim>\<open>string\<close> is a sequence of bytes; it is modelled by \<^typ>\<open>string\<close>, whose
  characters are the 256 byte values. \<^verbatim>\<open>s == ""\<close> is \<open>s = []\<close> and \<^verbatim>\<open>len(s)\<close> is
  \<open>length s\<close> (a byte count). A \<^verbatim>\<open>rune\<close> (int32) holds a code point and is modelled
  by a natural number; the code only compares runes. Go's \<^verbatim>\<open>int\<close> is modelled by
  \<^typ>\<open>int\<close>: the lengths and identifiers that occur are far below its range.
\<close>

type_synonym rune = nat

subsection \<open>Errors\<close>

text \<open>
  An \<^verbatim>\<open>error\<close> value is either nil (\<open>None\<close>) or carries a message.
  \<^verbatim>\<open>errors.New\<close> and \<^verbatim>\<open>fmt.Errorf\<close> without \<^verbatim>\<open>%w\<close> build an \<open>ErrorString\<close>;
  \<^verbatim>\<open>fmt.Errorf("...: %w", err)\<close> builds a \<open>WrapError\<close> that keeps the wrapped
  error behind the formatted prefix.
\<close>

datatype error = ErrorString string | WrapError string error

fun Error :: "error \<Rightarrow> string" where
  "Error (ErrorString s) = s"
| "Error (WrapError p e) = p @ Error e"

fun Is :: "error \<Rightarrow> error \<Rightarrow> bool" where
  "Is (ErrorString s) target = (ErrorString s = target)"
| "Is (WrapError p e) target = (WrapError p e = target \<or> Is e target)"

definition ErrNoRows :: error where
  "ErrNoRows = ErrorString ''sql: no rows in result set''"

text \<open>The verb \<^verbatim>\<open>%d\<close>: an integer in decimal.\<close>

definition digit :: "nat \<Rightarrow> char" where
  "digit d = ''0123456789'' ! d"

function decimal :: "nat \<Rightarrow> string" where
  "decimal n = (if n < 10 then [digit n] else decimal (n div 10) @ [digit (n mod 10)])"
  by pat_completeness auto
termination
  by (relation "measure (\<lambda>n. n)") auto

declare decimal.simps [simp del]

definition fmt_d :: "int \<Rightarrow> string" where
  "fmt_d i = (if i < 0 then CHR ''-'' # decimal (nat (- i)) else decimal (nat i))"

subsection \<open>Runes of a string\<close>

text \<open>
  The conversion \<^verbatim>\<open>[]rune(s)\<close> and \<^verbatim>\<open>range s\<close> decode UTF-8: a well-formed
  encoding of one to four bytes yields its code point, and any byte that does not start
  one yields U+FFFD and is stepped over alone. \<open>DecodeRuneInString\<close> returns the
  rune at the front of the string and the number of bytes it takes, with the byte ranges
  of Go's \<^verbatim>\<open>unicode/utf8\<close> (no overlong forms, no surrogates, nothing above
  U+10FFFF).
\<close>

definition RuneError :: rune where
  "RuneError = 65533"

definition byte_at :: "string \<Rightarrow> nat \<Rightarrow> nat" where
  "byte_at s i = of_char (s ! i)"

fun DecodeRuneInString :: "string \<Rightarrow> rune \<times> nat" where
  "DecodeRuneInString [] = (RuneError, 0)"
| "DecodeRuneInString (c # cs) =
     (let s0 = of_char c :: nat in
      if s0 < 128 then (s0, 1)
      else if s0 < 194 \<or> 244 < s0 then (RuneError, 1)
      else
        let sz = (if s0 < 224 then 2 else if s0 < 240 then 3 else 4) :: nat;
            lo = (if s0 = 224 then 160 else if s0 = 240 then 144 else 128) :: nat;
            hi = (if s0 = 237 then 159 else if s0 = 244 then 143 else 191) :: nat
        in
        if length (c # cs) < sz then (RuneError, 1)
        else
          let s1 = byte_at cs 0 in
          if s1 < lo \<or> hi < s1 then (RuneError, 1)
          else if sz \<le> 2 then ((s0 mod 32) * 64 + s1 mod 64, 2)
          else
            let s2 = byte_at cs 1 in
            if s2 < 128 \<or> 191 < s2 then (RuneError, 1)
            else if sz \<le> 3 then ((s0 mod 16) * 4096 + (s1 mod 64) * 64 + s2 mod 64, 3)
            else
              let s3 = byte_at cs 2 in
              if s3 < 128 \<or> 191 < s3 then (RuneError, 1)
              else ((s0 mod 8) * 262144 + (s1 mod 64) * 4096 + (s2 mod 64) * 64
                      + s3 mod 64, 4))"

lemma DecodeRuneInString_width:
  "1 \<le> snd (DecodeRuneInString (c # cs))"
  by (simp add: Let_def)

text \<open>
  \<open>range_string s\<close> is what \<^verbatim>\<open>for _, r := range s\<close> visits: each rune with the
  bytes it was decoded from.
\<close>

function range_string :: "string \<Rightarrow> (rune \<times> string) list" where
  "range_string [] = []"
| "range_string (c # cs) =
     (fst (DecodeRuneInString (c # cs)),
      take (snd (DecodeRuneInString (c # cs))) (c # cs))
     # range_string (drop (snd (DecodeRuneInString (c # cs))) (c # cs))"
  by pat_completeness auto
termination
proof (relation "measure length")
  show "wf (measure (length :: string \<Rightarrow> nat))" by simp
next
  fix c :: char and cs :: string
  have "1 \<le> snd (DecodeRuneInString (c # cs))"
    by (rule DecodeRuneInString_width)
  then show "(drop (snd (DecodeRuneInString (c # cs))) (c # cs), c # cs) \<in> measure length"
    by simp
qed

definition runes :: "string \<Rightarrow> rune list" where
  "runes s = map fst (range_string s)"

subsection \<open>Words of a string\<close>

text \<open>
  \<^verbatim>\<open>strings.Fields\<close> splits a string around each run of white space, as
  \<^verbatim>\<open>unicode.IsSpace\<close> defines it, and returns the non-empty pieces between the runs
  (an empty list when the string holds only white space).
\<close>

definition IsSpace :: "rune \<Rightarrow> bool" where
  "IsSpace r \<longleftrightarrow>
     (9 \<le> r \<and> r \<le> 13) \<or> r = 32 \<or> r = 133 \<or> r = 160 \<or> r = 5760
     \<or> (8192 \<le> r \<and> r \<le> 8202) \<or> r = 8232 \<or> r = 8233 \<or> r = 8239
     \<or> r = 8287 \<or> r = 12288"

fun fields_from :: "string option \<Rightarrow> (rune \<times> string) list \<Rightarrow> string list" where
  "fields_from None [] = []"
| "fields_from (Some w) [] = [w]"
| "fields_from cur ((r, bs) # rest) =
     (if IsSpace r then
        (case cur of None \<Rightarrow> fields_from None rest
                   | Some w \<Rightarrow> w # fields_from None rest)
      else
        (case cur of None \<Rightarrow> fields_from (Some bs) rest
                   | Some w \<Rightarrow> fields_from (Some (w @ bs)) rest))"

definition Fields :: "string \<Rightarrow> string list" where
  "Fields s = fields_from None (range_string s)"

section \<open>The edit distance\<close>

text \<open>
  The metric code imports \<^verbatim>\<open>github.com/texttheater/golang-levenshtein/levenshtein\<close>
  and calls \<^verbatim>\<open>levenshtein.DistanceForMatrix(source, target, options)\<close> with an
  \<open>Options\<close> value that sets the three costs to 1 and compares items with \<^verbatim>\<open>==\<close>.
  The package is a dependency and not part of the sources.
\<close>

record 'a Options =
  InsCost :: int
  DelCost :: int
  SubCost :: int
  Matches :: "'a \<Rightarrow> 'a \<Rightarrow> bool"

text \<open>
  Modelled from the spec: the function \<^verbatim>\<open>levenshtein.DistanceForMatrix\<close> of the imported
  package, which is absent from the sources. The specification asks for the
  minimum-edit-distance (Levenshtein) between the two item sequences with the given cost
  per insertion, deletion and substitution. The model is the usual table computation, one
  row per source item: entry \<open>j\<close> of the row for a source prefix is the distance from that prefix to the
  first \<open>j\<close> target items, and the result is the last entry of the last row.
\<close>

definition first_row :: "'a Options \<Rightarrow> 'a list \<Rightarrow> int list" where
  "first_row opts target = map (\<lambda>j. int j * InsCost opts) [0..<Suc (length target)]"

fun fill_row :: "'a Options \<Rightarrow> 'a \<Rightarrow> int \<Rightarrow> int \<Rightarrow> int list \<Rightarrow> 'a list \<Rightarrow> int list" where
  "fill_row opts x left diag (up # prev) (y # target) =
     (let delCost = up + DelCost opts;
          matchSubCost = diag + (if Matches opts x y then 0 else SubCost opts);
          insCost = left + InsCost opts;
          cell = min delCost (min matchSubCost insCost)
      in cell # fill_row opts x cell up prev target)"
| "fill_row opts x left diag prev target = []"

fun next_row :: "'a Options \<Rightarrow> 'a list \<Rightarrow> int list \<Rightarrow> 'a \<Rightarrow> int list" where
  "next_row opts target [] x = []"
| "next_row opts target (p0 # prev) x =
     (p0 + DelCost opts) # fill_row opts x (p0 + DelCost opts) p0 prev target"

text \<open>
  Modelled from the spec: \<^verbatim>\<open>levenshtein.DistanceForMatrix\<close> itself, the entry point the
  metric code calls with the source items, the target items and the options.
\<close>

definition DistanceForMatrix :: "'a list \<Rightarrow> 'a list \<Rightarrow> 'a Options \<Rightarrow> int" where
  "DistanceForMatrix source target opts =
     last (foldl (next_row opts target) (first_row opts target) source)"

text \<open>
  The specification's notion, stated on its own: \<open>edits opts xs ys n\<close> holds when \<open>xs\<close>
  can be turned into \<open>ys\<close> by insertions, deletions and substitutions (items that match
  are kept for free) whose costs add up to \<open>n\<close>. The Levenshtein distance is the least
  such \<open>n\<close>.
\<close>

inductive edits :: "'a Options \<Rightarrow> 'a list \<Rightarrow> 'a list \<Rightarrow> int \<Rightarrow> bool" for opts where
  edits_done: "edits opts [] [] 0"
| edits_insert: "edits opts xs ys n \<Longrightarrow> edits opts xs (y # ys) (n + InsCost opts)"
| edits_delete: "edits opts xs ys n \<Longrightarrow> edits opts (x # xs) ys (n + DelCost opts)"
| edits_substitute:
    "edits opts xs ys n \<Longrightarrow> \<not> Matches opts x y \<Longrightarrow> edits opts (x # xs) (y # ys) (n + SubCost opts)"
| edits_keep: "edits opts xs ys n \<Longrightarrow> Matches opts x y \<Longrightarrow> edits opts (x # xs) (y # ys) n"

definition levenshtein_distance :: "'a Options \<Rightarrow> 'a list \<Rightarrow> 'a list \<Rightarrow> int \<Rightarrow> bool" where
  "levenshtein_distance opts xs ys d \<longleftrightarrow>
     edits opts xs ys d \<and> (\<forall>n. edits opts xs ys n \<longrightarrow> d \<le> n)"

section \<open>The metrics calculator\<close>

text \<open>
  \<^verbatim>\<open>CalculateWER\<close> and \<^verbatim>\<open>CalculateCER\<close> return \<^verbatim>\<open>(float64, error)\<close>. The float is
  modelled by a real number: \<^verbatim>\<open>float64(distance) / float64(n)\<close> is the exact quotient
  here, while the machine rounds it to the nearest double (0, 1 and the other quotients
  that are doubles are exact in both).
\<close>

definition word_options :: "string Options" where
  "word_options = \<lparr>InsCost = 1, DelCost = 1, SubCost = 1,
                    Matches = (\<lambda>sourceItem targetItem. sourceItem = targetItem)\<rparr>"

definition rune_options :: "rune Options" where
  "rune_options = \<lparr>InsCost = 1, DelCost = 1, SubCost = 1,
                    Matches = (\<lambda>sourceItem targetItem. sourceItem = targetItem)\<rparr>"

definition CalculateWER :: "string \<Rightarrow> string \<Rightarrow> real \<times> error option" where
  "CalculateWER groundTruth recognizedText =
     (if groundTruth = [] \<and> recognizedText = [] then (0, None)
      else if groundTruth = [] then
        (if recognizedText = [] then (0, None)
         else
           let wordsRecognized = Fields recognizedText in
           (1, Some (ErrorString
              (''ground truth is empty, cannot normalize WER (recognized: ''
               @ fmt_d (int (length wordsRecognized))
               @ '' words, treated as 100% error)''))))
      else
        let wordsGroundTruth = Fields groundTruth;
            wordsRecognized = Fields recognizedText;
            nGroundTruth = length wordsGroundTruth
        in
        if nGroundTruth = 0 then
          (if length wordsRecognized = 0 then (0, None)
           else
             (1, Some (ErrorString
                (''ground truth has 0 words after tokenization, cannot normalize WER (recognized: ''
                 @ fmt_d (int (length wordsRecognized))
                 @ '' words, treated as 100% error)''))))
        else
          let distance = DistanceForMatrix wordsGroundTruth wordsRecognized word_options;
              wer = real_of_int distance / real nGroundTruth
          in (wer, None))"

definition CalculateCER :: "string \<Rightarrow> string \<Rightarrow> real \<times> error option" where
  "CalculateCER groundTruth recognizedText =
     (if groundTruth = [] \<and> recognizedText = [] then (0, None)
      else if groundTruth = [] then
        (if recognizedText = [] then (0, None)
         else
           (1, Some (ErrorString
              (''ground truth is empty, cannot normalize CER (recognized: ''
               @ fmt_d (int (length recognizedText))
               @ '' chars, treated as 100% error)''))))
      else
        let runesGroundTruth = runes groundTruth;
            runesRecognized = runes recognizedText;
            nGroundTruth = length runesGroundTruth
        in
        if nGroundTruth = 0 then
          (if length runesRecognized = 0 then (0, None)
           else
             (1, Some (ErrorString
                (''ground truth has 0 characters after tokenization, cannot normalize CER (recognized: ''
                 @ fmt_d (int (length runesRecognized))
                 @ '' chars, treated as 100% error)''))))
        else
          let distance = DistanceForMatrix runesGroundTruth runesRecognized rune_options;
              cer = real_of_int distance / real nGroundTruth
          in (cer, None))"

definition CalculateLatency :: "int \<Rightarrow> int" where
  "CalculateLatency durationMs = durationMs"

section \<open>The distance as a recursion\<close>

text \<open>
  Two auxiliary functions for the proofs about \<open>DistanceForMatrix\<close>. \<open>lev\<close> is the
  distance written as a recursion on the two sequences; \<open>row_from f p ys\<close> lists the
  values of \<open>f\<close> on \<open>p\<close> extended at the front by the items of \<open>ys\<close>, one more at each
  step, which is the shape of a table row when \<open>p\<close> is a reversed prefix.
\<close>

fun lev :: "'a Options \<Rightarrow> 'a list \<Rightarrow> 'a list \<Rightarrow> int" where
  "lev opts [] [] = 0"
| "lev opts [] (y # ys) = lev opts [] ys + InsCost opts"
| "lev opts (x # xs) [] = lev opts xs [] + DelCost opts"
| "lev opts (x # xs) (y # ys) =
     min (lev opts xs (y # ys) + DelCost opts)
       (min (lev opts xs ys + (if Matches opts x y then 0 else SubCost opts))
            (lev opts (x # xs) ys + InsCost opts))"

fun row_from :: "('a list \<Rightarrow> int) \<Rightarrow> 'a list \<Rightarrow> 'a list \<Rightarrow> int list" where
  "row_from f p [] = []"
| "row_from f p (y # suf) = f (y # p) # row_from f (y # p) suf"

section \<open>The datastore\<close>

text \<open>
  The nullable column types \<^verbatim>\<open>sql.NullString\<close>, \<^verbatim>\<open>sql.NullFloat64\<close>,
  \<^verbatim>\<open>sql.NullInt64\<close> and \<^verbatim>\<open>sql.NullTime\<close> are modelled by \<open>option\<close>: a value with
  \<^verbatim>\<open>Valid: false\<close> is \<open>None\<close> and is stored as SQL NULL, and the zero value of each
  type is \<open>None\<close>. \<^verbatim>\<open>json.RawMessage\<close> is a byte string, with nil as the empty one.
  A \<^verbatim>\<open>time.Time\<close> is a number of milliseconds. The columns \<^verbatim>\<open>created_at\<close> and
  \<^verbatim>\<open>updated_at\<close> are left out of the rows.
\<close>

type_synonym NullString = "string option"
type_synonym NullFloat64 = "real option"
type_synonym NullInt64 = "int option"
type_synonym NullTime = "int option"
type_synonym RawMessage = string

definition String :: "NullString \<Rightarrow> string" where
  "String ns = (case ns of None \<Rightarrow> [] | Some s \<Rightarrow> s)"

record VendorConfig =
  ID :: int
  Name :: string
  APIType :: string
  APIKey :: NullString
  APISecret :: NullString
  APIEndpoint :: NullString
  SupportedModels :: RawMessage
  OtherConfigs :: RawMessage

record ASRTestCase =
  ID :: int
  Name :: string
  LanguageCode :: NullString
  AudioFilePath :: string
  GroundTruthText :: NullString
  Tags :: RawMessage
  Description :: NullString

record ASREvaluationResult =
  ID :: int
  JobID :: int
  ASRTestCaseID :: int
  VendorConfigID :: int
  RecognizedText :: NullString
  CER :: NullFloat64
  WER :: NullFloat64
  SER :: NullFloat64
  LatencyMs :: NullInt64
  RawVendorResponse :: RawMessage

record EvaluationJob =
  ID :: int
  JobName :: NullString
  JobType :: string
  Status :: string
  VendorConfigIDs :: RawMessage
  TestCaseIDs :: RawMessage
  Parameters :: RawMessage
  StartedAt :: NullTime
  CompletedAt :: NullTime

text \<open>
  The database behind \<^verbatim>\<open>datastore.DB\<close> is an external service. Its model holds the
  four tables as lists of rows and, for the failures of the connection and the driver,
  a function \<open>driver_error\<close> that says for each statement the code sends whether the
  driver answers with an error. A statement is answered the same way each time it is
  sent. A \<^verbatim>\<open>SELECT ... WHERE id = $1\<close> returns the row with that id, or
  \<^verbatim>\<open>sql.ErrNoRows\<close>; an \<^verbatim>\<open>INSERT ... RETURNING id\<close> gives the new row an id that
  no row of the table has; an \<^verbatim>\<open>UPDATE ... WHERE id = $n\<close> changes the rows with that
  id and reports how many there were (\<^verbatim>\<open>RowsAffected\<close> itself does not fail).
\<close>

datatype statement =
    Select_vendor_configs int
  | Select_asr_test_cases int
  | Insert_asr_evaluation_results ASREvaluationResult
  | Insert_evaluation_jobs EvaluationJob
  | Select_evaluation_jobs int
  | Update_evaluation_jobs_status string int
  | Update_evaluation_jobs_timestamps NullTime NullTime int

record database =
  driver_error :: "statement \<Rightarrow> error option"
  vendor_configs :: "VendorConfig list"
  asr_test_cases :: "ASRTestCase list"
  evaluation_jobs :: "EvaluationJob list"
  asr_evaluation_results :: "ASREvaluationResult list"

record MinioClient =
  BucketName :: string

text \<open>
  The adapters are the implementations of the interface \<^verbatim>\<open>ASRAdapter\<close>; each real one
  holds the object store client it was created with.
\<close>

datatype ASRAdapter =
    MockASRAdapter
  | GoogleASRAdapter "MinioClient option"
  | MicrosoftASRAdapter "MinioClient option"
  | DeepgramASRAdapter "MinioClient option"
  | TencentASRAdapter "MinioClient option"
  | VolcengineASRAdapter "MinioClient option"
  | AlibabaASRAdapter "MinioClient option"

text \<open>
  The state the code works on: the two package variables \<^verbatim>\<open>datastore.DB\<close> and
  \<^verbatim>\<open>globalObjectStoreClient\<close> (nil is \<open>None\<close>), the clock read by \<^verbatim>\<open>time.Now()\<close>,
  and the outside world met by the real adapters: \<open>vendor_service\<close> is what the vendor's
  speech service answers to a \<^verbatim>\<open>Recognize\<close> call, and \<open>call_duration\<close> the milliseconds
  a call takes. Log output is not modelled.
\<close>

record world =
  DB :: "database option"
  globalObjectStoreClient :: "MinioClient option"
  clock :: int
  vendor_service :: "ASRAdapter \<Rightarrow> string \<Rightarrow> string \<Rightarrow> VendorConfig \<Rightarrow> string \<times> string \<times> error option"
  call_duration :: "ASRAdapter \<Rightarrow> string \<Rightarrow> string \<Rightarrow> VendorConfig \<Rightarrow> int"

definition QueryRow :: "database \<Rightarrow> statement \<Rightarrow> ('row \<Rightarrow> bool) \<Rightarrow> 'row list \<Rightarrow> error + 'row" where
  "QueryRow db stmt matching rows =
     (case driver_error db stmt of
        Some err \<Rightarrow> Inl err
      | None \<Rightarrow> (case find matching rows of None \<Rightarrow> Inl ErrNoRows | Some row \<Rightarrow> Inr row))"

definition new_id :: "int list \<Rightarrow> int" where
  "new_id ids = foldr max ids 0 + 1"

definition GetVendorConfig :: "world \<Rightarrow> int \<Rightarrow> error + VendorConfig" where
  "GetVendorConfig w id' =
     (case DB w of
        None \<Rightarrow> Inl (ErrorString ''database connection not initialized'')
      | Some db \<Rightarrow>
          (case QueryRow db (Select_vendor_configs id') (\<lambda>vc. VendorConfig.ID vc = id')
                  (vendor_configs db) of
             Inl err \<Rightarrow>
               if Is err ErrNoRows
               then Inl (WrapError (''vendor config with ID '' @ fmt_d id' @ '' not found: '') err)
               else Inl (WrapError ''failed to get vendor config: '' err)
           | Inr vc \<Rightarrow> Inr vc))"

definition GetASRTestCase :: "world \<Rightarrow> int \<Rightarrow> error + ASRTestCase" where
  "GetASRTestCase w id' =
     (case DB w of
        None \<Rightarrow> Inl (ErrorString ''database connection not initialized'')
      | Some db \<Rightarrow>
          (case QueryRow db (Select_asr_test_cases id') (\<lambda>tc. ASRTestCase.ID tc = id')
                  (asr_test_cases db) of
             Inl err \<Rightarrow>
               if Is err ErrNoRows
               then Inl (WrapError (''ASR test case with ID '' @ fmt_d id' @ '' not found: '') err)
               else Inl (WrapError ''failed to get ASR test case: '' err)
           | Inr tc \<Rightarrow> Inr tc))"

text \<open>
  \<^verbatim>\<open>CreateASREvaluationResult\<close> also writes the new id into the struct it was passed; its
  only caller drops both, so the model returns the id and the error.
\<close>

definition CreateASREvaluationResult :: "world \<Rightarrow> ASREvaluationResult \<Rightarrow> (int \<times> error option) \<times> world" where
  "CreateASREvaluationResult w result =
     (case DB w of
        None \<Rightarrow> ((0, Some (ErrorString ''database connection not initialized'')), w)
      | Some db \<Rightarrow>
          let rawResponseJSON =
                (if RawVendorResponse result \<noteq> [] then RawVendorResponse result else ''null'')
          in
          (case driver_error db (Insert_asr_evaluation_results result) of
             Some err \<Rightarrow>
               ((0, Some (WrapError ''failed to create ASR evaluation result: '' err)), w)
           | None \<Rightarrow>
               let id' = new_id (map ASREvaluationResult.ID (asr_evaluation_results db));
                   row = result\<lparr>ASREvaluationResult.ID := id',
                                RawVendorResponse := rawResponseJSON\<rparr>
               in ((id', None),
                   w\<lparr>DB := Some (db\<lparr>asr_evaluation_results :=
                                        asr_evaluation_results db @ [row]\<rparr>)\<rparr>)))"

definition CreateEvaluationJob :: "world \<Rightarrow> EvaluationJob \<Rightarrow> (int \<times> error option) \<times> world" where
  "CreateEvaluationJob w job =
     (case DB w of
        None \<Rightarrow> ((0, Some (ErrorString ''database connection not initialized'')), w)
      | Some db \<Rightarrow>
          let vendorIDsJSON = (if VendorConfigIDs job \<noteq> [] then VendorConfigIDs job else ''[]'');
              testCaseIDsJSON = (if TestCaseIDs job \<noteq> [] then TestCaseIDs job else ''[]'');
              paramsJSON = (if Parameters job \<noteq> [] then Parameters job else ''null'')
          in
          (case driver_error db (Insert_evaluation_jobs job) of
             Some err \<Rightarrow> ((0, Some (WrapError ''failed to create evaluation job: '' err)), w)
           | None \<Rightarrow>
               let id' = new_id (map EvaluationJob.ID (evaluation_jobs db));
                   row = job\<lparr>EvaluationJob.ID := id', VendorConfigIDs := vendorIDsJSON,
                             TestCaseIDs := testCaseIDsJSON, Parameters := paramsJSON\<rparr>
               in ((id', None),
                   w\<lparr>DB := Some (db\<lparr>evaluation_jobs := evaluation_jobs db @ [row]\<rparr>)\<rparr>)))"






section \<open>The vendor adapters\<close>

definition NewGoogleASRAdapter :: "MinioClient option \<Rightarrow> ASRAdapter" where
  "NewGoogleASRAdapter minioClient = GoogleASRAdapter minioClient"

definition NewMicrosoftASRAdapter :: "MinioClient option \<Rightarrow> ASRAdapter" where
  "NewMicrosoftASRAdapter minioClient = MicrosoftASRAdapter minioClient"

definition NewDeepgramASRAdapter :: "MinioClient option \<Rightarrow> ASRAdapter" where
  "NewDeepgramASRAdapter minioClient = DeepgramASRAdapter minioClient"

definition NewTencentASRAdapter :: "MinioClient option \<Rightarrow> ASRAdapter" where
  "NewTencentASRAdapter minioClient = TencentASRAdapter minioClient"

definition NewVolcengineASRAdapter :: "MinioClient option \<Rightarrow> ASRAdapter" where
  "NewVolcengineASRAdapter minioClient = VolcengineASRAdapter minioClient"

definition NewAlibabaASRAdapter :: "MinioClient option \<Rightarrow> ASRAdapter" where
  "NewAlibabaASRAdapter minioClient = AlibabaASRAdapter minioClient"

text \<open>
  \<^verbatim>\<open>GetASRAdapter\<close> takes a pointer to the vendor configuration, which may be nil, and
  switches on its \<open>Name\<close>; the \<^verbatim>\<open>default\<close> case is last.
\<close>

definition GetASRAdapter :: "world \<Rightarrow> VendorConfig option \<Rightarrow> error + ASRAdapter" where
  "GetASRAdapter w vendorConfig =
     (case vendorConfig of
        None \<Rightarrow> Inl (ErrorString ''vendorConfig cannot be nil'')
      | Some vc \<Rightarrow>
          if VendorConfig.Name vc = ''MockASR'' then Inr MockASRAdapter
          else if VendorConfig.Name vc = ''MockASR-Error'' then Inr MockASRAdapter
          else if VendorConfig.Name vc = ''GoogleCloudASR'' then
            (if globalObjectStoreClient w = None
             then Inl (ErrorString
               ''GoogleASRAdapter requires an initialized object store client, but it's nil'')
             else Inr (NewGoogleASRAdapter (globalObjectStoreClient w)))
          else if VendorConfig.Name vc = ''MicrosoftASR'' then
            (if globalObjectStoreClient w = None
             then Inl (ErrorString
               ''MicrosoftASRAdapter requires an initialized object store client, but it's nil'')
             else Inr (NewMicrosoftASRAdapter (globalObjectStoreClient w)))
          else if VendorConfig.Name vc = ''DeepgramASR'' then
            (if globalObjectStoreClient w = None
             then Inl (ErrorString
               ''DeepgramASRAdapter requires an initialized object store client, but it's nil'')
             else Inr (NewDeepgramASRAdapter (globalObjectStoreClient w)))
          else if VendorConfig.Name vc = ''TencentASR'' then
            (if globalObjectStoreClient w = None
             then Inl (ErrorString
               ''TencentASRAdapter requires an initialized object store client, but it's nil'')
             else Inr (NewTencentASRAdapter (globalObjectStoreClient w)))
          else if VendorConfig.Name vc = ''VolcengineASR'' then
            (if globalObjectStoreClient w = None
             then Inl (ErrorString
               ''VolcengineASRAdapter requires an initialized object store client, but it's nil'')
             else Inr (NewVolcengineASRAdapter (globalObjectStoreClient w)))
          else if VendorConfig.Name vc = ''AlibabaASR'' then
            (if globalObjectStoreClient w = None
             then Inl (ErrorString
               ''AlibabaASRAdapter requires an initialized object store client, but it's nil'')
             else Inr (NewAlibabaASRAdapter (globalObjectStoreClient w)))
          else Inr MockASRAdapter)"

definition dquote :: string where
  "dquote = [CHR 0x22]"

definition MockASRAdapter_Recognize :: "string \<Rightarrow> string \<Rightarrow> VendorConfig \<Rightarrow> string \<times> string \<times> error option" where
  "MockASRAdapter_Recognize audioFilePath languageCode vendorConfig =
     (let mockText = ''Mock recognition for '' @ audioFilePath
                       @ '': Hello world, this is a test for language '' @ languageCode @ ''.''
      in
      if VendorConfig.Name vendorConfig = ''MockASR-Error'' then
        (let mockRawResponse = ''{'' @ dquote @ ''error'' @ dquote @ '': '' @ dquote
               @ ''Simulated error from MockASR-Error vendor'' @ dquote @ ''}''
         in ([], mockRawResponse,
             Some (ErrorString (''simulated error from MockASR-Error for file '' @ audioFilePath))))
      else
        (let mockRawResponse = ''{'' @ dquote @ ''transcription'' @ dquote @ '': '' @ dquote
               @ mockText @ dquote @ '', '' @ dquote @ ''confidence'' @ dquote @ '': 0.95, ''
               @ dquote @ ''simulated'' @ dquote @ '': true}''
         in (mockText, mockRawResponse, None)))"

text \<open>
  \<^verbatim>\<open>adapter.Recognize\<close>: the mock adapter is the code above; a real adapter calls its
  vendor's service, whose answer the state supplies. The parameter map is empty at the
  only call and is left out.
\<close>

fun Recognize :: "world \<Rightarrow> ASRAdapter \<Rightarrow> string \<Rightarrow> string \<Rightarrow> VendorConfig \<Rightarrow> string \<times> string \<times> error option" where
  "Recognize w MockASRAdapter audioFilePath languageCode vendorConfig =
     MockASRAdapter_Recognize audioFilePath languageCode vendorConfig"
| "Recognize w adapter audioFilePath languageCode vendorConfig =
     vendor_service w adapter audioFilePath languageCode vendorConfig"

section \<open>The evaluation engine\<close>

text \<open>
  \<open>build_result\<close> is the part of the loop body of \<^verbatim>\<open>RunASREvaluation\<close> between the
  \<^verbatim>\<open>Recognize\<close> call and the call of \<^verbatim>\<open>CreateASREvaluationResult\<close>: it fills the
  result struct from the test case, the vendor configuration, the three values
  \<^verbatim>\<open>Recognize\<close> returned and the measured latency. Fields that are never assigned keep
  their zero value.
\<close>

definition build_result :: "int \<Rightarrow> ASRTestCase \<Rightarrow> VendorConfig \<Rightarrow> string \<Rightarrow> string \<Rightarrow> error option \<Rightarrow> int \<Rightarrow> ASREvaluationResult" where
  "build_result jobID testCase vendorConfig recognizedText rawResponse err latencyMs =
     (let result0 = \<lparr>ASREvaluationResult.ID = 0,
                      JobID = jobID,
                      ASRTestCaseID = ASRTestCase.ID testCase,
                      VendorConfigID = VendorConfig.ID vendorConfig,
                      RecognizedText = None, CER = None, WER = None, SER = None,
                      LatencyMs = Some latencyMs,
                      RawVendorResponse = []\<rparr>;
          result1 = (if rawResponse \<noteq> [] then result0\<lparr>RawVendorResponse := rawResponse\<rparr>
                     else result0\<lparr>RawVendorResponse := ''null''\<rparr>);
          result2 = (case err of
                       Some e \<Rightarrow> result1\<lparr>RecognizedText := Some (''Recognition Error: '' @ Error e)\<rparr>
                     | None \<Rightarrow> result1\<lparr>RecognizedText := Some recognizedText\<rparr>)
      in
      if GroundTruthText testCase \<noteq> None \<and> String (GroundTruthText testCase) \<noteq> [] then
        (let gt = String (GroundTruthText testCase);
             rec = recognizedText;
             result3 =
               (if err = None then
                  (let (cer, cerErr) = CalculateCER gt rec;
                       result_cer = (if cerErr \<noteq> None then result2\<lparr>CER := None\<rparr>
                                     else result2\<lparr>CER := Some cer\<rparr>);
                       (wer, werErr) = CalculateWER gt rec
                   in if werErr \<noteq> None then result_cer\<lparr>WER := None\<rparr>
                      else result_cer\<lparr>WER := Some wer\<rparr>)
                else result2)
         in result3\<lparr>SER := None\<rparr>)
      else result2\<lparr>CER := None, WER := None, SER := None\<rparr>)"

text \<open>
  One pass of the inner loop, for one vendor configuration id. Each \<^verbatim>\<open>continue\<close>
  returns the state as it is. The clock moves on by the duration of the
  \<^verbatim>\<open>Recognize\<close> call, which is the latency \<^verbatim>\<open>time.Since(startTime)\<close> measures.
\<close>

definition vendor_iteration :: "int \<Rightarrow> ASRTestCase \<Rightarrow> world \<Rightarrow> int \<Rightarrow> world" where
  "vendor_iteration jobID testCase w vendorConfigID =
     (case GetVendorConfig w vendorConfigID of
        Inl err \<Rightarrow> w
      | Inr vendorConfig \<Rightarrow>
          (case GetASRAdapter w (Some vendorConfig) of
             Inl err \<Rightarrow> w
           | Inr adapter \<Rightarrow>
               let (recognizedText, rawResponse, err) =
                     Recognize w adapter (AudioFilePath testCase) (String (LanguageCode testCase))
                       vendorConfig;
                   latencyMs =
                     call_duration w adapter (AudioFilePath testCase)
                       (String (LanguageCode testCase)) vendorConfig;
                   w1 = w\<lparr>clock := clock w + latencyMs\<rparr>;
                   result = build_result jobID testCase vendorConfig recognizedText rawResponse
                              err latencyMs;
                   (created, w2) = CreateASREvaluationResult w1 result
               in w2))"

text \<open>One pass of the outer loop, for one test case id.\<close>

definition test_case_iteration :: "int \<Rightarrow> int list \<Rightarrow> world \<Rightarrow> int \<Rightarrow> world" where
  "test_case_iteration jobID vendorConfigIDs w testCaseID =
     (case GetASRTestCase w testCaseID of
        Inl err \<Rightarrow> w
      | Inr testCase \<Rightarrow> foldl (vendor_iteration jobID testCase) w vendorConfigIDs)"

definition RunASREvaluation :: "world \<Rightarrow> int \<Rightarrow> int list \<Rightarrow> int list \<Rightarrow> error option \<times> world" where
  "RunASREvaluation w jobID testCaseIDs vendorConfigIDs =
     (if DB w = None then (Some (ErrorString ''database connection is not initialized''), w)
      else (None, foldl (test_case_iteration jobID vendorConfigIDs) w testCaseIDs))"

section \<open>Job management\<close>



section \<open>Notions used in the statements about a run\<close>

text \<open>
  What one pass of the inner loop hands to \<open>CreateASREvaluationResult\<close>, as a function
  of the state the run starts in: \<open>recognition\<close> and \<open>latency\<close> are the call of
  \<open>Recognize\<close> for a test case and a vendor and its duration, \<open>pair_result\<close> the struct built from
  them, and \<open>accepts\<close> says that the driver takes the insertion of a struct.
  \<open>pair_rows\<close> lists the result stored for a test case and a vendor configuration id
  (none or one), and \<open>job_rows\<close> those of a whole job, in the order of the two loops.
\<close>

definition recognition :: "world \<Rightarrow> ASRAdapter \<Rightarrow> ASRTestCase \<Rightarrow> VendorConfig \<Rightarrow> string \<times> string \<times> error option" where
  "recognition w adapter testCase vendorConfig =
     Recognize w adapter (AudioFilePath testCase) (String (LanguageCode testCase)) vendorConfig"

definition latency :: "world \<Rightarrow> ASRAdapter \<Rightarrow> ASRTestCase \<Rightarrow> VendorConfig \<Rightarrow> int" where
  "latency w adapter testCase vendorConfig =
     call_duration w adapter (AudioFilePath testCase) (String (LanguageCode testCase)) vendorConfig"

definition pair_result :: "world \<Rightarrow> int \<Rightarrow> ASRTestCase \<Rightarrow> VendorConfig \<Rightarrow> ASRAdapter \<Rightarrow> ASREvaluationResult" where
  "pair_result w jobID testCase vendorConfig adapter =
     (case recognition w adapter testCase vendorConfig of
        (recognizedText, rawResponse, err) \<Rightarrow>
          build_result jobID testCase vendorConfig recognizedText rawResponse err
            (latency w adapter testCase vendorConfig))"

definition accepts :: "world \<Rightarrow> ASREvaluationResult \<Rightarrow> bool" where
  "accepts w result =
     (case DB w of
        None \<Rightarrow> False
      | Some db \<Rightarrow> driver_error db (Insert_asr_evaluation_results result) = None)"

definition pair_rows :: "world \<Rightarrow> int \<Rightarrow> ASRTestCase \<Rightarrow> int \<Rightarrow> ASREvaluationResult list" where
  "pair_rows w jobID testCase vendorConfigID =
     (case GetVendorConfig w vendorConfigID of
        Inl err \<Rightarrow> []
      | Inr vendorConfig \<Rightarrow>
          (case GetASRAdapter w (Some vendorConfig) of
             Inl err \<Rightarrow> []
           | Inr adapter \<Rightarrow>
               if accepts w (pair_result w jobID testCase vendorConfig adapter)
               then [pair_result w jobID testCase vendorConfig adapter] else []))"

definition test_case_rows :: "world \<Rightarrow> int \<Rightarrow> int list \<Rightarrow> int \<Rightarrow> ASREvaluationResult list" where
  "test_case_rows w jobID vendorConfigIDs testCaseID =
     (case GetASRTestCase w testCaseID of
        Inl err \<Rightarrow> []
      | Inr testCase \<Rightarrow> concat (map (pair_rows w jobID testCase) vendorConfigIDs))"

definition job_rows :: "world \<Rightarrow> int \<Rightarrow> int list \<Rightarrow> int list \<Rightarrow> ASREvaluationResult list" where
  "job_rows w jobID testCaseIDs vendorConfigIDs =
     concat (map (test_case_rows w jobID vendorConfigIDs) testCaseIDs)"

text \<open>
  The table of results of a state, a row without the id the database gave it, and the
  rows a later state has beyond those of an earlier one.
\<close>

definition results_table :: "world \<Rightarrow> ASREvaluationResult list" where
  "results_table w = (case DB w of None \<Rightarrow> [] | Some db \<Rightarrow> asr_evaluation_results db)"

definition unnumbered :: "ASREvaluationResult \<Rightarrow> ASREvaluationResult" where
  "unnumbered r = r\<lparr>ASREvaluationResult.ID := 0\<rparr>"

definition added_rows :: "world \<Rightarrow> world \<Rightarrow> ASREvaluationResult list" where
  "added_rows w w' = drop (length (results_table w)) (results_table w')"

text \<open>
  \<open>same_environment w w'\<close>: the two states differ at most in the clock and in the table
  of results. \<open>extends w w' rows\<close>: moreover the table of \<open>w'\<close> is that of \<open>w\<close> followed
  by \<open>rows\<close>, each under a new id.
\<close>

definition same_environment :: "world \<Rightarrow> world \<Rightarrow> bool" where
  "same_environment w w' \<longleftrightarrow>
     globalObjectStoreClient w' = globalObjectStoreClient w
     \<and> vendor_service w' = vendor_service w
     \<and> call_duration w' = call_duration w
     \<and> (case DB w of
          None \<Rightarrow> DB w' = None
        | Some db \<Rightarrow>
            (case DB w' of
               None \<Rightarrow> False
             | Some db' \<Rightarrow>
                 driver_error db' = driver_error db
                 \<and> vendor_configs db' = vendor_configs db
                 \<and> asr_test_cases db' = asr_test_cases db
                 \<and> evaluation_jobs db' = evaluation_jobs db))"

definition extends :: "world \<Rightarrow> world \<Rightarrow> ASREvaluationResult list \<Rightarrow> bool" where
  "extends w w' rows \<longleftrightarrow>
     same_environment w w'
     \<and> (\<exists>new. results_table w' = results_table w @ new \<and> map unnumbered new = rows)"

section \<open>A small installation\<close>

text \<open>
  The concrete instances below run on this state: three vendor configurations (the mock
  adapter, the mock adapter configured to fail, and a real vendor), three test cases
  (with ground truth, with no ground truth, and with a ground truth of one blank), a
  database whose driver never fails, and no object store client.
\<close>

definition demo_mock :: VendorConfig where
  "demo_mock = \<lparr>VendorConfig.ID = 1, VendorConfig.Name = ''MockASR'', APIType = ''ASR'',
     APIKey = None, APISecret = None, APIEndpoint = None,
     SupportedModels = [], OtherConfigs = []\<rparr>"

definition demo_failing :: VendorConfig where
  "demo_failing = \<lparr>VendorConfig.ID = 2, VendorConfig.Name = ''MockASR-Error'', APIType = ''ASR'',
     APIKey = None, APISecret = None, APIEndpoint = None,
     SupportedModels = [], OtherConfigs = []\<rparr>"

definition demo_google :: VendorConfig where
  "demo_google = \<lparr>VendorConfig.ID = 3, VendorConfig.Name = ''GoogleCloudASR'', APIType = ''ASR'',
     APIKey = None, APISecret = None, APIEndpoint = None,
     SupportedModels = [], OtherConfigs = []\<rparr>"

definition demo_case_hello :: ASRTestCase where
  "demo_case_hello = \<lparr>ASRTestCase.ID = 1, ASRTestCase.Name = ''hello'',
     LanguageCode = Some ''en'', AudioFilePath = ''a.wav'',
     GroundTruthText = Some ''hello world'', Tags = [], Description = None\<rparr>"

definition demo_case_plain :: ASRTestCase where
  "demo_case_plain = \<lparr>ASRTestCase.ID = 3, ASRTestCase.Name = ''plain'',
     LanguageCode = None, AudioFilePath = ''c.wav'',
     GroundTruthText = None, Tags = [], Description = None\<rparr>"

definition demo_case_blank :: ASRTestCase where
  "demo_case_blank = \<lparr>ASRTestCase.ID = 4, ASRTestCase.Name = ''blank'',
     LanguageCode = Some ''en'', AudioFilePath = ''d.wav'',
     GroundTruthText = Some [CHR '' ''], Tags = [], Description = None\<rparr>"

definition demo_db :: database where
  "demo_db = \<lparr>driver_error = (\<lambda>stmt. None),
     vendor_configs = [demo_mock, demo_failing, demo_google],
     asr_test_cases = [demo_case_hello, demo_case_plain, demo_case_blank],
     evaluation_jobs = [], asr_evaluation_results = []\<rparr>"

definition demo_world :: world where
  "demo_world = \<lparr>DB = Some demo_db, globalObjectStoreClient = None, clock = 0,
     vendor_service = (\<lambda>adapter audioFilePath languageCode vendorConfig. ([], [], None)),
     call_duration = (\<lambda>adapter audioFilePath languageCode vendorConfig. 500)\<rparr>"

text \<open>The same installation with a driver that refuses every insertion of a result.\<close>

definition demo_world_refusing :: world where
  "demo_world_refusing =
     demo_world\<lparr>DB := Some (demo_db\<lparr>driver_error :=
       (\<lambda>stmt. case stmt of
                 Insert_asr_evaluation_results result \<Rightarrow> Some (ErrorString ''connection reset'')
               | _ \<Rightarrow> None)\<rparr>)\<rparr>"

text \<open>
  \<open>pair_persists w jobID t v\<close>: in a run started in \<open>w\<close>, the pair of the test case id
  \<open>t\<close> and the vendor configuration id \<open>v\<close> gets its row: the test case is found, the
  vendor configuration is found, an adapter is obtained for it, and the driver takes the
  insertion of the result. What \<open>Recognize\<close> returns plays no part.
\<close>

definition pair_persists :: "world \<Rightarrow> int \<Rightarrow> int \<Rightarrow> int \<Rightarrow> bool" where
  "pair_persists w jobID t v =
     (case GetASRTestCase w t of
        Inl err \<Rightarrow> False
      | Inr testCase \<Rightarrow>
          (case GetVendorConfig w v of
             Inl err \<Rightarrow> False
           | Inr vendorConfig \<Rightarrow>
               (case GetASRAdapter w (Some vendorConfig) of
                  Inl err \<Rightarrow> False
                | Inr adapter \<Rightarrow> accepts w (pair_result w jobID testCase vendorConfig adapter))))"

text \<open>
  The row of a job in the table of jobs of a state, and whether the driver of a state
  refuses a statement.
\<close>

definition job_row :: "world \<Rightarrow> int \<Rightarrow> EvaluationJob option" where
  "job_row w jobID =
     (case DB w of
        None \<Rightarrow> None
      | Some db \<Rightarrow> find (\<lambda>job. EvaluationJob.ID job = jobID) (evaluation_jobs db))"



definition job_status :: "world \<Rightarrow> int \<Rightarrow> string option" where
  "job_status w jobID = map_option Status (job_row w jobID)"


section \<open>Correctness of the distance computation\<close>


lemma lev_insert_le: "lev opts xs (y # ys) \<le> lev opts xs ys + InsCost opts"
  by (cases xs) simp_all

lemma lev_delete_le: "lev opts (x # xs) ys \<le> lev opts xs ys + DelCost opts"
  by (cases ys) simp_all

lemma lev_least: "edits opts xs ys n \<Longrightarrow> lev opts xs ys \<le> n"
proof (induction rule: edits.induct)
  case edits_done
  show ?case by simp
next
  case (edits_insert xs ys n y)
  then show ?case using lev_insert_le [of opts xs y ys] by linarith
next
  case (edits_delete xs ys n x)
  then show ?case using lev_delete_le [of opts x xs ys] by linarith
next
  case (edits_substitute xs ys n x y)
  then show ?case by simp
next
  case (edits_keep xs ys n x y)
  then show ?case by simp
qed

lemma fill_row_row_from:
  "fill_row opts x (lev opts (x # r) p) (lev opts r p) (row_from (lev opts r) p suf) suf
     = row_from (lev opts (x # r)) p suf"
proof (induction suf arbitrary: p)
  case Nil
  show ?case by simp
next
  case (Cons y suf)
  have cell: "min (lev opts r (y # p) + DelCost opts)
                (min (lev opts r p + (if Matches opts x y then 0 else SubCost opts))
                     (lev opts (x # r) p + InsCost opts))
              = lev opts (x # r) (y # p)"
    by simp
  show ?case
    by (simp only: row_from.simps fill_row.simps Let_def cell Cons.IH)
qed

lemma next_row_row_from:
  "next_row opts target (lev opts r [] # row_from (lev opts r) [] target) x
     = lev opts (x # r) [] # row_from (lev opts (x # r)) [] target"
  using fill_row_row_from [of opts x r "[]" target] by simp

lemma lev_Nil: "lev opts [] p = int (length p) * InsCost opts"
  by (induction p) (simp_all add: algebra_simps)

lemma row_from_first:
  "row_from (lev opts []) p ys
     = map (\<lambda>j. int j * InsCost opts) [Suc (length p)..<Suc (length p + length ys)]"
proof (induction ys arbitrary: p)
  case Nil
  show ?case by simp
next
  case (Cons y ys)
  have "Suc (length p) < Suc (length p + length (y # ys))" by simp
  from upt_conv_Cons [OF this]
  have "[Suc (length p)..<Suc (length p + length (y # ys))]
          = Suc (length p) # [Suc (length (y # p))..<Suc (length (y # p) + length ys)]"
    by simp
  then show ?case using Cons [of "y # p"] by (simp add: lev_Nil del: upt_Suc)
qed

lemma first_row_row_from:
  "first_row opts target = lev opts [] [] # row_from (lev opts []) [] target"
  by (simp add: first_row_def row_from_first upt_conv_Cons del: upt_Suc)

lemma foldl_next_row:
  "foldl (next_row opts target) (lev opts r [] # row_from (lev opts r) [] target) xs
     = lev opts (rev xs @ r) [] # row_from (lev opts (rev xs @ r)) [] target"
proof (induction xs arbitrary: r)
  case Nil
  show ?case by simp
next
  case (Cons x xs)
  have "foldl (next_row opts target) (lev opts r [] # row_from (lev opts r) [] target) (x # xs)
          = foldl (next_row opts target)
              (lev opts (x # r) [] # row_from (lev opts (x # r)) [] target) xs"
    by (simp only: foldl.simps next_row_row_from)
  also have "\<dots> = lev opts (rev xs @ x # r) [] # row_from (lev opts (rev xs @ x # r)) [] target"
    by (rule Cons.IH)
  finally show ?case by simp
qed

lemma last_row_from: "last (f p # row_from f p ys) = f (rev ys @ p)"
  by (induction ys arbitrary: p) simp_all

lemma DistanceForMatrix_lev:
  "DistanceForMatrix source target opts = lev opts (rev source) (rev target)"
  unfolding DistanceForMatrix_def first_row_row_from
  using foldl_next_row [of opts target "[]" source] last_row_from [of "lev opts (rev source)" "[]" target]
  by simp








lemma levenshtein_distance_unique:
  "levenshtein_distance opts xs ys d \<Longrightarrow> levenshtein_distance opts xs ys d' \<Longrightarrow> d = d'"
  unfolding levenshtein_distance_def by (meson order_antisym)

section \<open>Properties of the metrics calculator\<close>

lemma edits_same: "(\<And>x. Matches opts x x) \<Longrightarrow> edits opts xs xs 0"
  by (induction xs) (auto intro: edits.intros)

lemma lev_nonneg:
  "0 \<le> InsCost opts \<Longrightarrow> 0 \<le> DelCost opts \<Longrightarrow> 0 \<le> SubCost opts \<Longrightarrow> 0 \<le> lev opts xs ys"
  by (induction opts xs ys rule: lev.induct) auto

lemma DistanceForMatrix_same:
  assumes "0 \<le> InsCost opts" "0 \<le> DelCost opts" "0 \<le> SubCost opts"
    and "\<And>x. Matches opts x x"
  shows "DistanceForMatrix xs xs opts = 0"
proof -
  have "edits opts (rev xs) (rev xs) 0" using assms(4) by (rule edits_same)
  then have "lev opts (rev xs) (rev xs) \<le> 0" by (rule lev_least)
  moreover have "0 \<le> lev opts (rev xs) (rev xs)" using assms(1-3) by (rule lev_nonneg)
  ultimately show ?thesis by (simp add: DistanceForMatrix_lev)
qed

lemma range_string_Nil_iff: "range_string s = [] \<longleftrightarrow> s = []"
  by (cases s) simp_all

lemma runes_Nil_iff: "runes s = [] \<longleftrightarrow> s = []"
  by (simp add: runes_def range_string_Nil_iff)

lemma Fields_Nil: "Fields [] = []"
  by (simp add: Fields_def)

lemma fields_from_Some: "fields_from (Some w) cs \<noteq> []"
  by (induction cs arbitrary: w) (auto split: if_splits)

lemma fields_from_None_Nil_iff:
  "fields_from None cs = [] \<longleftrightarrow> list_all (\<lambda>c. IsSpace (fst c)) cs"
  by (induction cs) (auto simp: fields_from_Some split: if_splits)

lemma Fields_Nil_iff: "Fields s = [] \<longleftrightarrow> list_all IsSpace (runes s)"
  by (simp add: Fields_def runes_def fields_from_None_Nil_iff list_all_iff)

lemma CalculateCER_nonempty:
  "groundTruth \<noteq> [] \<Longrightarrow>
   CalculateCER groundTruth recognizedText =
     (real_of_int (DistanceForMatrix (runes groundTruth) (runes recognizedText) rune_options)
        / real (length (runes groundTruth)), None)"
  by (simp add: CalculateCER_def Let_def runes_Nil_iff)

lemma CalculateWER_words:
  "Fields groundTruth \<noteq> [] \<Longrightarrow>
   CalculateWER groundTruth recognizedText =
     (real_of_int (DistanceForMatrix (Fields groundTruth) (Fields recognizedText) word_options)
        / real (length (Fields groundTruth)), None)"
  by (auto simp: CalculateWER_def Let_def Fields_Nil)

lemma CalculateWER_no_words:
  "groundTruth \<noteq> [] \<Longrightarrow> Fields groundTruth = [] \<Longrightarrow>
   CalculateWER groundTruth recognizedText =
     (if Fields recognizedText = [] then (0, None)
      else (1, Some (ErrorString
                (''ground truth has 0 words after tokenization, cannot normalize WER (recognized: ''
                 @ fmt_d (int (length (Fields recognizedText)))
                 @ '' words, treated as 100% error)''))))"
  by (simp add: CalculateWER_def Let_def)








text \<open>
  C4. Both metrics return 0 with a nil error when reference and hypothesis are both
  empty; with an empty reference and a non-empty hypothesis they return the value 1
  together with a non-nil error.
\<close>

theorem empty_reference_policy:
  "CalculateCER [] [] = (0, None) \<and> CalculateWER [] [] = (0, None)
   \<and> (recognizedText \<noteq> [] \<longrightarrow>
        (\<exists>e. CalculateCER [] recognizedText = (1, Some e))
        \<and> (\<exists>e. CalculateWER [] recognizedText = (1, Some e)))"
  by (simp add: CalculateCER_def CalculateWER_def Let_def)

theorem empty_reference_policy_witness:
  "''x'' \<noteq> [] \<and> (\<exists>e. CalculateCER [] ''x'' = (1, Some e))
   \<and> (\<exists>e. CalculateWER [] ''x'' = (1, Some e))"
  using empty_reference_policy [of "''x''"] by simp

text \<open>
  C9. For every non-empty string \<open>s\<close>, both metrics of \<open>s\<close> against itself are 0 with a
  nil error.
\<close>

theorem identical_strings_score_zero:
  "s \<noteq> [] \<Longrightarrow> CalculateCER s s = (0, None) \<and> CalculateWER s s = (0, None)"
proof
  assume s: "s \<noteq> []"
  have "DistanceForMatrix (runes s) (runes s) rune_options = 0"
    by (rule DistanceForMatrix_same) (simp_all add: rune_options_def)
  with s show "CalculateCER s s = (0, None)" by (simp add: CalculateCER_nonempty)
next
  assume s: "s \<noteq> []"
  show "CalculateWER s s = (0, None)"
  proof (cases "Fields s = []")
    case True
    with s show ?thesis by (simp add: CalculateWER_no_words)
  next
    case False
    have "DistanceForMatrix (Fields s) (Fields s) word_options = 0"
      by (rule DistanceForMatrix_same) (simp_all add: word_options_def)
    with False show ?thesis by (simp add: CalculateWER_words)
  qed
qed

theorem identical_strings_score_zero_witness:
  "''hello world'' \<noteq> [] \<and> CalculateCER ''hello world'' ''hello world'' = (0, None)
   \<and> CalculateWER ''hello world'' ''hello world'' = (0, None)"
  using identical_strings_score_zero [of "''hello world''"] by simp

text \<open>
  C10. For a ground truth that is not empty but holds only white space (so it has no
  words), \<open>CalculateWER\<close> returns 1 with a non-nil error when the recognized text has a
  word, and 0 with a nil error when the recognized text has no word either.
\<close>

theorem whitespace_reference_is_degenerate:
  "groundTruth \<noteq> [] \<Longrightarrow> list_all IsSpace (runes groundTruth) \<Longrightarrow>
   Fields groundTruth = []
   \<and> (Fields recognizedText \<noteq> [] \<longrightarrow>
        (\<exists>e. CalculateWER groundTruth recognizedText = (1, Some e)))
   \<and> (Fields recognizedText = [] \<longrightarrow>
        CalculateWER groundTruth recognizedText = (0, None))"
  by (simp add: Fields_Nil_iff [symmetric] CalculateWER_no_words)

theorem whitespace_reference_is_degenerate_witness:
  "[CHR '' '', CHR 0x09] \<noteq> [] \<and> list_all IsSpace (runes [CHR '' '', CHR 0x09])
   \<and> Fields ''hi'' \<noteq> []
   \<and> (\<exists>e. CalculateWER [CHR '' '', CHR 0x09] ''hi'' = (1, Some e))
   \<and> Fields [CHR '' ''] = []
   \<and> CalculateWER [CHR '' '', CHR 0x09] [CHR '' ''] = (0, None)"
proof -
  have a: "[CHR '' '', CHR 0x09] \<noteq> []" by simp
  have b: "list_all IsSpace (runes [CHR '' '', CHR 0x09])"
    by (simp add: runes_def IsSpace_def)
  have c: "Fields ''hi'' \<noteq> []" by (simp add: Fields_def IsSpace_def)
  have d: "Fields [CHR '' ''] = []" by (simp add: Fields_def IsSpace_def)
  from whitespace_reference_is_degenerate [OF a b, of "''hi''"]
    whitespace_reference_is_degenerate [OF a b, of "[CHR '' '']"] a b c d
  show ?thesis by blast
qed

section \<open>What a run adds to the table of results\<close>

lemma same_environment_refl: "same_environment w w"
  by (simp add: same_environment_def split: option.splits)

lemma same_environment_trans:
  "same_environment w w' \<Longrightarrow> same_environment w' w'' \<Longrightarrow> same_environment w w''"
  by (auto simp: same_environment_def split: option.splits)

lemma same_environment_GetVendorConfig:
  "same_environment w w' \<Longrightarrow> GetVendorConfig w' v = GetVendorConfig w v"
  by (auto simp: same_environment_def GetVendorConfig_def QueryRow_def split: option.splits)

lemma same_environment_GetASRTestCase:
  "same_environment w w' \<Longrightarrow> GetASRTestCase w' t = GetASRTestCase w t"
  by (auto simp: same_environment_def GetASRTestCase_def QueryRow_def split: option.splits)

lemma same_environment_GetASRAdapter:
  "same_environment w w' \<Longrightarrow> GetASRAdapter w' vc = GetASRAdapter w vc"
proof -
  assume "same_environment w w'"
  then have "globalObjectStoreClient w' = globalObjectStoreClient w"
    by (simp add: same_environment_def)
  then show ?thesis by (simp only: GetASRAdapter_def)
qed

lemma same_environment_Recognize:
  "same_environment w w' \<Longrightarrow> Recognize w' a p l vc = Recognize w a p l vc"
  by (cases a) (simp_all add: same_environment_def)

lemma same_environment_pair_result:
  "same_environment w w' \<Longrightarrow> pair_result w' j tc vc a = pair_result w j tc vc a"
  by (simp add: pair_result_def recognition_def latency_def same_environment_Recognize)
     (simp add: same_environment_def)

lemma same_environment_accepts:
  "same_environment w w' \<Longrightarrow> accepts w' r = accepts w r"
  by (auto simp: same_environment_def accepts_def split: option.splits)

lemma same_environment_pair_rows:
  "same_environment w w' \<Longrightarrow> pair_rows w' j tc v = pair_rows w j tc v"
  by (simp add: pair_rows_def same_environment_GetVendorConfig same_environment_GetASRAdapter
      same_environment_pair_result same_environment_accepts split: sum.splits)

lemma same_environment_pair_rows_fun:
  "same_environment w w' \<Longrightarrow> pair_rows w' j tc = pair_rows w j tc"
  by (rule ext) (rule same_environment_pair_rows)

lemma same_environment_test_case_rows:
  "same_environment w w' \<Longrightarrow> test_case_rows w' j vs t = test_case_rows w j vs t"
  by (simp add: test_case_rows_def same_environment_GetASRTestCase
      same_environment_pair_rows_fun split: sum.splits)

lemma extends_refl: "extends w w []"
  by (simp add: extends_def same_environment_refl)

lemma extends_trans:
  assumes "extends w w' rows" and "extends w' w'' rows'"
  shows "extends w w'' (rows @ rows')"
proof -
  from assms(1) obtain new where n: "results_table w' = results_table w @ new"
    "map unnumbered new = rows" and e: "same_environment w w'"
    by (auto simp: extends_def)
  from assms(2) obtain new' where n': "results_table w'' = results_table w' @ new'"
    "map unnumbered new' = rows'" and e': "same_environment w' w''"
    by (auto simp: extends_def)
  have "results_table w'' = results_table w @ (new @ new')" using n n' by simp
  moreover have "map unnumbered (new @ new') = rows @ rows'" using n n' by simp
  ultimately show ?thesis
    unfolding extends_def using same_environment_trans [OF e e'] by blast
qed

lemma build_result_raw: "RawVendorResponse (build_result j tc vc text raw err ms) \<noteq> []"
  by (simp add: build_result_def Let_def split: option.splits prod.splits)

lemma build_result_ID: "ASREvaluationResult.ID (build_result j tc vc text raw err ms) = 0"
  by (simp add: build_result_def Let_def split: option.splits prod.splits)

lemma pair_result_raw: "RawVendorResponse (pair_result w j tc vc a) \<noteq> []"
  by (simp add: pair_result_def build_result_raw split: prod.splits)

lemma pair_result_ID: "ASREvaluationResult.ID (pair_result w j tc vc a) = 0"
  by (simp add: pair_result_def build_result_ID split: prod.splits)

lemma same_environment_clock: "same_environment w (w\<lparr>clock := c\<rparr>)"
  by (simp add: same_environment_def split: option.splits)

lemma CreateASREvaluationResult_extends:
  assumes "RawVendorResponse result \<noteq> []" and "ASREvaluationResult.ID result = 0"
  shows "extends w (snd (CreateASREvaluationResult w result))
           (if accepts w result then [result] else [])"
proof (cases "DB w")
  case None
  then show ?thesis
    by (simp add: CreateASREvaluationResult_def accepts_def extends_refl)
next
  case (Some db)
  show ?thesis
  proof (cases "driver_error db (Insert_asr_evaluation_results result)")
    case None
    then show ?thesis using Some assms
      by (simp add: CreateASREvaluationResult_def accepts_def extends_def same_environment_def
          results_table_def unnumbered_def Let_def)
  next
    case (Some err)
    then show ?thesis using \<open>DB w = Some db\<close>
      by (simp add: CreateASREvaluationResult_def accepts_def extends_refl)
  qed
qed

lemma vendor_iteration_extends:
  "extends w (vendor_iteration j tc w v) (pair_rows w j tc v)"
proof (cases "GetVendorConfig w v")
  case (Inl err)
  then show ?thesis by (simp add: vendor_iteration_def pair_rows_def extends_refl)
next
  case (Inr vc)
  show ?thesis
  proof (cases "GetASRAdapter w (Some vc)")
    case (Inl err)
    then show ?thesis using Inr by (simp add: vendor_iteration_def pair_rows_def extends_refl)
  next
    case (Inr a)
    let ?w1 = "w\<lparr>clock := clock w + latency w a tc vc\<rparr>"
    let ?r = "pair_result w j tc vc a"
    have it: "vendor_iteration j tc w v = snd (CreateASREvaluationResult ?w1 ?r)"
      using \<open>GetVendorConfig w v = Inr vc\<close> Inr
      by (simp add: vendor_iteration_def pair_result_def recognition_def latency_def Let_def
          split: prod.splits)
    have e: "same_environment w ?w1" by (rule same_environment_clock)
    have "extends ?w1 (snd (CreateASREvaluationResult ?w1 ?r))
            (if accepts ?w1 ?r then [?r] else [])"
      by (rule CreateASREvaluationResult_extends) (rule pair_result_raw, rule pair_result_ID)
    moreover have "extends w ?w1 []"
      by (simp add: extends_def same_environment_clock results_table_def)
    ultimately have "extends w (snd (CreateASREvaluationResult ?w1 ?r))
            ([] @ (if accepts ?w1 ?r then [?r] else []))"
      by (rule extends_trans [rotated])
    then show ?thesis
      using \<open>GetVendorConfig w v = Inr vc\<close> Inr it same_environment_accepts [OF e]
      by (simp add: pair_rows_def)
  qed
qed

lemma extends_same_environment: "extends w w' rows \<Longrightarrow> same_environment w w'"
  by (simp add: extends_def)

lemma vendor_loop_extends:
  "extends w (foldl (vendor_iteration j tc) w vs) (concat (map (pair_rows w j tc) vs))"
proof (induction vs rule: rev_induct)
  case Nil
  show ?case by (simp add: extends_refl)
next
  case (snoc v vs)
  let ?w' = "foldl (vendor_iteration j tc) w vs"
  have "extends ?w' (vendor_iteration j tc ?w' v) (pair_rows ?w' j tc v)"
    by (rule vendor_iteration_extends)
  then have "extends ?w' (vendor_iteration j tc ?w' v) (pair_rows w j tc v)"
    using same_environment_pair_rows [OF extends_same_environment [OF snoc]] by simp
  with snoc have "extends w (vendor_iteration j tc ?w' v)
      (concat (map (pair_rows w j tc) vs) @ pair_rows w j tc v)"
    by (rule extends_trans)
  then show ?case by simp
qed

lemma test_case_iteration_extends:
  "extends w (test_case_iteration j vs w t) (test_case_rows w j vs t)"
  by (cases "GetASRTestCase w t")
     (simp_all add: test_case_iteration_def test_case_rows_def extends_refl vendor_loop_extends)

lemma test_case_loop_extends:
  "extends w (foldl (test_case_iteration j vs) w ts) (job_rows w j ts vs)"
proof (induction ts rule: rev_induct)
  case Nil
  show ?case by (simp add: extends_refl job_rows_def)
next
  case (snoc t ts)
  let ?w' = "foldl (test_case_iteration j vs) w ts"
  have "extends ?w' (test_case_iteration j vs ?w' t) (test_case_rows ?w' j vs t)"
    by (rule test_case_iteration_extends)
  then have "extends ?w' (test_case_iteration j vs ?w' t) (test_case_rows w j vs t)"
    using same_environment_test_case_rows [OF extends_same_environment [OF snoc]] by simp
  with snoc have "extends w (test_case_iteration j vs ?w' t)
      (job_rows w j ts vs @ test_case_rows w j vs t)"
    by (rule extends_trans)
  then show ?case by (simp add: job_rows_def)
qed

lemma RunASREvaluation_extends:
  "extends w (snd (RunASREvaluation w j ts vs)) (if DB w = None then [] else job_rows w j ts vs)"
  by (simp add: RunASREvaluation_def extends_refl test_case_loop_extends)

section \<open>Where a stored row comes from\<close>

lemma QueryRow_Inr:
  "QueryRow db stmt matching rows = Inr row \<Longrightarrow> matching row \<and> row \<in> set rows"
  by (auto simp: QueryRow_def find_Some_iff split: option.splits)

lemma GetASRTestCase_ID: "GetASRTestCase w t = Inr tc \<Longrightarrow> ASRTestCase.ID tc = t"
  by (auto simp: GetASRTestCase_def split: option.splits sum.splits if_splits
      dest: QueryRow_Inr)

lemma GetVendorConfig_ID: "GetVendorConfig w v = Inr vc \<Longrightarrow> VendorConfig.ID vc = v"
  by (auto simp: GetVendorConfig_def split: option.splits sum.splits if_splits
      dest: QueryRow_Inr)

lemma build_result_ids:
  "JobID (build_result j tc vc text raw err ms) = j"
  "ASRTestCaseID (build_result j tc vc text raw err ms) = ASRTestCase.ID tc"
  "VendorConfigID (build_result j tc vc text raw err ms) = VendorConfig.ID vc"
  "LatencyMs (build_result j tc vc text raw err ms) = Some ms"
  by (simp_all add: build_result_def Let_def split: option.splits prod.splits)

lemma build_result_SER: "SER (build_result j tc vc text raw err ms) = None"
  by (simp add: build_result_def Let_def split: option.splits prod.splits)


lemma build_result_failed:
  "err \<noteq> None \<Longrightarrow> CER (build_result j tc vc text raw err ms) = None
     \<and> WER (build_result j tc vc text raw err ms) = None"
  by (auto simp: build_result_def Let_def split: option.splits prod.splits)

lemma build_result_no_ground_truth:
  "GroundTruthText tc = None \<or> GroundTruthText tc = Some [] \<Longrightarrow>
   CER (build_result j tc vc text raw err ms) = None
     \<and> WER (build_result j tc vc text raw err ms) = None"
  by (auto simp: build_result_def Let_def String_def split: option.splits prod.splits)

lemma build_result_metrics:
  "GroundTruthText tc = Some gt \<Longrightarrow> gt \<noteq> [] \<Longrightarrow>
   CER (build_result j tc vc text raw None ms)
     = (if snd (CalculateCER gt text) = None then Some (fst (CalculateCER gt text)) else None)
   \<and> WER (build_result j tc vc text raw None ms)
     = (if snd (CalculateWER gt text) = None then Some (fst (CalculateWER gt text)) else None)"
  by (auto simp: build_result_def Let_def String_def split: option.splits prod.splits)

lemma pair_rows_member:
  "r \<in> set (pair_rows w j tc v) \<Longrightarrow>
   \<exists>vc a. GetVendorConfig w v = Inr vc \<and> GetASRAdapter w (Some vc) = Inr a
      \<and> accepts w (pair_result w j tc vc a) \<and> r = pair_result w j tc vc a"
proof -
  assume r: "r \<in> set (pair_rows w j tc v)"
  show ?thesis
  proof (cases "GetVendorConfig w v")
    case (Inl err)
    with r show ?thesis by (simp add: pair_rows_def)
  next
    case (Inr vc)
    show ?thesis
    proof (cases "GetASRAdapter w (Some vc)")
      case (Inl err)
      with r Inr show ?thesis by (simp add: pair_rows_def)
    next
      case a: (Inr a)
      with r Inr show ?thesis by (simp add: pair_rows_def split: if_splits)
    qed
  qed
qed

lemma test_case_rows_member:
  "r \<in> set (test_case_rows w j vs t) \<Longrightarrow>
   \<exists>tc. GetASRTestCase w t = Inr tc \<and> (\<exists>v\<in>set vs. r \<in> set (pair_rows w j tc v))"
  by (cases "GetASRTestCase w t") (auto simp: test_case_rows_def)

lemma job_rows_member:
  "r \<in> set (job_rows w j ts vs) \<Longrightarrow>
   \<exists>t\<in>set ts. \<exists>v\<in>set vs. \<exists>tc vc a.
      GetASRTestCase w t = Inr tc \<and> GetVendorConfig w v = Inr vc
      \<and> GetASRAdapter w (Some vc) = Inr a
      \<and> accepts w (pair_result w j tc vc a) \<and> r = pair_result w j tc vc a"
proof -
  assume "r \<in> set (job_rows w j ts vs)"
  then obtain t where t: "t \<in> set ts" "r \<in> set (test_case_rows w j vs t)"
    by (auto simp: job_rows_def)
  from test_case_rows_member [OF t(2)] obtain tc v where
    tc: "GetASRTestCase w t = Inr tc" "v \<in> set vs" "r \<in> set (pair_rows w j tc v)"
    by blast
  from pair_rows_member [OF tc(3)] t(1) tc(1,2) show ?thesis by blast
qed

lemma extends_added_rows: "extends w w' rows \<Longrightarrow> map unnumbered (added_rows w w') = rows"
proof -
  assume "extends w w' rows"
  then obtain new where "results_table w' = results_table w @ new" "map unnumbered new = rows"
    unfolding extends_def by blast
  then show ?thesis by (simp add: added_rows_def)
qed

lemma added_rows_unnumbered:
  "r \<in> set (added_rows w (snd (RunASREvaluation w j ts vs))) \<Longrightarrow>
   unnumbered r \<in> set (job_rows w j ts vs)"
proof -
  assume r: "r \<in> set (added_rows w (snd (RunASREvaluation w j ts vs)))"
  have "map unnumbered (added_rows w (snd (RunASREvaluation w j ts vs)))
          = (if DB w = None then [] else job_rows w j ts vs)"
    by (rule extends_added_rows) (rule RunASREvaluation_extends)
  moreover from r have "unnumbered r
      \<in> set (map unnumbered (added_rows w (snd (RunASREvaluation w j ts vs))))"
    by simp
  ultimately have "unnumbered r \<in> set (if DB w = None then [] else job_rows w j ts vs)"
    by simp
  then show ?thesis by (simp split: if_splits)
qed

lemma unnumbered_fields:
  "JobID (unnumbered r) = JobID r" "ASRTestCaseID (unnumbered r) = ASRTestCaseID r"
  "VendorConfigID (unnumbered r) = VendorConfigID r"
  "RecognizedText (unnumbered r) = RecognizedText r"
  "CER (unnumbered r) = CER r" "WER (unnumbered r) = WER r" "SER (unnumbered r) = SER r"
  "LatencyMs (unnumbered r) = LatencyMs r"
  "RawVendorResponse (unnumbered r) = RawVendorResponse r"
  by (simp_all add: unnumbered_def)

lemma added_row_origin:
  assumes "r \<in> set (added_rows w (snd (RunASREvaluation w j ts vs)))"
  shows "\<exists>tc vc a. ASRTestCaseID r \<in> set ts \<and> VendorConfigID r \<in> set vs
      \<and> GetASRTestCase w (ASRTestCaseID r) = Inr tc
      \<and> GetVendorConfig w (VendorConfigID r) = Inr vc
      \<and> GetASRAdapter w (Some vc) = Inr a
      \<and> accepts w (pair_result w j tc vc a)
      \<and> unnumbered r = pair_result w j tc vc a"
proof -
  from added_rows_unnumbered [OF assms] job_rows_member
  obtain t v tc vc a where o: "t \<in> set ts" "v \<in> set vs" "GetASRTestCase w t = Inr tc"
    "GetVendorConfig w v = Inr vc" "GetASRAdapter w (Some vc) = Inr a"
    "accepts w (pair_result w j tc vc a)" "unnumbered r = pair_result w j tc vc a"
    by blast
  have "ASRTestCaseID r = ASRTestCaseID (unnumbered r)" by (simp add: unnumbered_fields)
  also have "\<dots> = t"
    using o(7) GetASRTestCase_ID [OF o(3)]
    by (simp add: pair_result_def build_result_ids split: prod.splits)
  finally have t: "ASRTestCaseID r = t" .
  have "VendorConfigID r = VendorConfigID (unnumbered r)" by (simp add: unnumbered_fields)
  also have "\<dots> = v"
    using o(7) GetVendorConfig_ID [OF o(4)]
    by (simp add: pair_result_def build_result_ids split: prod.splits)
  finally have v: "VendorConfigID r = v" .
  show ?thesis using o t v by blast
qed

section \<open>Properties of the evaluation run\<close>

lemma extends_DB: "extends w w' rows \<Longrightarrow> DB w \<noteq> None \<Longrightarrow> DB w' \<noteq> None"
  by (auto simp: extends_def same_environment_def split: option.splits)

lemma accepts_DB: "accepts w r \<Longrightarrow> DB w \<noteq> None"
  by (cases "DB w") (simp_all add: accepts_def)

lemma pair_result_in_job_rows:
  assumes "t \<in> set ts" "v \<in> set vs" "GetASRTestCase w t = Inr tc" "GetVendorConfig w v = Inr vc"
    "GetASRAdapter w (Some vc) = Inr a" "accepts w (pair_result w j tc vc a)"
  shows "pair_result w j tc vc a \<in> set (job_rows w j ts vs)"
proof -
  have "pair_result w j tc vc a \<in> set (pair_rows w j tc v)"
    using assms(4-6) by (simp add: pair_rows_def)
  then have "pair_result w j tc vc a \<in> set (test_case_rows w j vs t)"
    using assms(2,3) by (auto simp: test_case_rows_def)
  then show ?thesis using assms(1) by (auto simp: job_rows_def)
qed

lemma persisted_pair_has_row:
  assumes "t \<in> set ts" "v \<in> set vs" "GetASRTestCase w t = Inr tc" "GetVendorConfig w v = Inr vc"
    "GetASRAdapter w (Some vc) = Inr a" "accepts w (pair_result w j tc vc a)"
  shows "\<exists>r\<in>set (added_rows w (snd (RunASREvaluation w j ts vs))).
           unnumbered r = pair_result w j tc vc a"
proof -
  have db: "DB w \<noteq> None" using assms(6) by (rule accepts_DB)
  have "map unnumbered (added_rows w (snd (RunASREvaluation w j ts vs)))
          = (if DB w = None then [] else job_rows w j ts vs)"
    by (rule extends_added_rows) (rule RunASREvaluation_extends)
  with db have "job_rows w j ts vs
      = map unnumbered (added_rows w (snd (RunASREvaluation w j ts vs)))"
    by auto
  with pair_result_in_job_rows [OF assms] show ?thesis by auto
qed


lemma pair_result_ids:
  "JobID (pair_result w j tc vc a) = j"
  "ASRTestCaseID (pair_result w j tc vc a) = ASRTestCase.ID tc"
  "VendorConfigID (pair_result w j tc vc a) = VendorConfig.ID vc"
  "SER (pair_result w j tc vc a) = None"
  by (simp_all add: pair_result_def build_result_ids build_result_SER split: prod.splits)


text \<open>
  C3. Every row a run stores has SER unset, and has CER and WER unset when its test case
  has no ground truth or an empty one, or when the recognition call for its pair failed.
\<close>

theorem unset_metrics_are_stored_as_null:
  assumes "r \<in> set (added_rows w (snd (RunASREvaluation w jobID testCaseIDs vendorConfigIDs)))"
  shows "SER r = None
    \<and> (\<exists>testCase vendorConfig adapter.
          GetASRTestCase w (ASRTestCaseID r) = Inr testCase
          \<and> GetVendorConfig w (VendorConfigID r) = Inr vendorConfig
          \<and> GetASRAdapter w (Some vendorConfig) = Inr adapter
          \<and> (GroundTruthText testCase = None \<or> GroundTruthText testCase = Some []
               \<or> snd (snd (recognition w adapter testCase vendorConfig)) \<noteq> None
              \<longrightarrow> CER r = None \<and> WER r = None))"
proof -
  from added_row_origin [OF assms] obtain tc vc a where
    o: "GetASRTestCase w (ASRTestCaseID r) = Inr tc"
       "GetVendorConfig w (VendorConfigID r) = Inr vc"
       "GetASRAdapter w (Some vc) = Inr a"
       "unnumbered r = pair_result w jobID tc vc a"
    by blast
  obtain rtext raw err where rec: "recognition w a tc vc = (rtext, raw, err)"
    by (cases "recognition w a tc vc") auto
  have u: "unnumbered r = build_result jobID tc vc rtext raw err (latency w a tc vc)"
    using o(4) rec by (simp add: pair_result_def)
  have f: "SER r = SER (unnumbered r)" "CER r = CER (unnumbered r)"
    "WER r = WER (unnumbered r)"
    by (simp_all add: unnumbered_fields)
  have ser: "SER r = None"
    unfolding f u by (rule build_result_SER)
  have m: "CER r = None \<and> WER r = None"
    if "GroundTruthText tc = None \<or> GroundTruthText tc = Some []
        \<or> snd (snd (recognition w a tc vc)) \<noteq> None"
  proof (cases "err = None")
    case True
    with that rec have "GroundTruthText tc = None \<or> GroundTruthText tc = Some []" by simp
    then show ?thesis unfolding f u by (rule build_result_no_ground_truth)
  next
    case False
    then show ?thesis unfolding f u by (rule build_result_failed)
  qed
  from ser o(1-3) m show ?thesis by blast
qed

lemma demo_test_cases:
  "GetASRTestCase demo_world 1 = Inr demo_case_hello"
  "GetASRTestCase demo_world 3 = Inr demo_case_plain"
  "GetASRTestCase demo_world 4 = Inr demo_case_blank"
  "GetASRTestCase demo_world 2
     = Inl (WrapError (''ASR test case with ID '' @ fmt_d 2 @ '' not found: '') ErrNoRows)"
  by (simp_all add: GetASRTestCase_def QueryRow_def demo_world_def demo_db_def
      demo_case_hello_def demo_case_plain_def demo_case_blank_def ErrNoRows_def)

lemma demo_vendors:
  "GetVendorConfig demo_world 1 = Inr demo_mock"
  "GetVendorConfig demo_world 2 = Inr demo_failing"
  "GetVendorConfig demo_world 3 = Inr demo_google"
  by (simp_all add: GetVendorConfig_def QueryRow_def demo_world_def demo_db_def
      demo_mock_def demo_failing_def demo_google_def)

lemma demo_adapters:
  "GetASRAdapter demo_world (Some demo_mock) = Inr MockASRAdapter"
  "GetASRAdapter demo_world (Some demo_failing) = Inr MockASRAdapter"
  "GetASRAdapter demo_world (Some demo_google)
     = Inl (ErrorString
         ''GoogleASRAdapter requires an initialized object store client, but it's nil'')"
  by (simp_all add: GetASRAdapter_def demo_world_def demo_mock_def demo_failing_def
      demo_google_def)

lemma demo_accepts: "accepts demo_world r"
  by (simp add: accepts_def demo_world_def demo_db_def)

lemma demo_recognition_failing:
  "snd (snd (recognition demo_world MockASRAdapter tc demo_failing))
     = Some (ErrorString (''simulated error from MockASR-Error for file '' @ AudioFilePath tc))"
  by (simp add: recognition_def MockASRAdapter_Recognize_def demo_failing_def Let_def)

lemma demo_recognition_mock:
  "recognition demo_world MockASRAdapter tc demo_mock
     = (''Mock recognition for '' @ AudioFilePath tc
          @ '': Hello world, this is a test for language '' @ String (LanguageCode tc) @ ''.'',
        ''{'' @ dquote @ ''transcription'' @ dquote @ '': '' @ dquote
          @ ''Mock recognition for '' @ AudioFilePath tc
          @ '': Hello world, this is a test for language '' @ String (LanguageCode tc) @ ''.''
          @ dquote @ '', '' @ dquote @ ''confidence'' @ dquote @ '': 0.95, ''
          @ dquote @ ''simulated'' @ dquote @ '': true}'',
        None)"
  by (simp add: recognition_def MockASRAdapter_Recognize_def demo_mock_def Let_def)

theorem unset_metrics_are_stored_as_null_witness:
  "(\<exists>r\<in>set (added_rows demo_world (snd (RunASREvaluation demo_world 7 [1, 3] [2, 1]))).
      ASRTestCaseID r = 1 \<and> VendorConfigID r = 2
      \<and> SER r = None \<and> CER r = None \<and> WER r = None)
   \<and> (\<exists>r\<in>set (added_rows demo_world (snd (RunASREvaluation demo_world 7 [1, 3] [2, 1]))).
      ASRTestCaseID r = 3 \<and> VendorConfigID r = 1
      \<and> SER r = None \<and> CER r = None \<and> WER r = None)"
proof
  let ?added = "added_rows demo_world (snd (RunASREvaluation demo_world 7 [1, 3] [2, 1]))"
  have "\<exists>r\<in>set ?added.
      unnumbered r = pair_result demo_world 7 demo_case_hello demo_failing MockASRAdapter"
    by (rule persisted_pair_has_row [where t = 1 and v = 2])
       (simp_all add: demo_test_cases demo_vendors demo_adapters demo_accepts)
  then obtain r where r: "r \<in> set ?added"
    and u: "unnumbered r = pair_result demo_world 7 demo_case_hello demo_failing MockASRAdapter"
    by blast
  have "ASRTestCaseID (unnumbered r) = 1" "VendorConfigID (unnumbered r) = 2"
    unfolding u by (simp_all add: pair_result_ids demo_case_hello_def demo_failing_def)
  then have ids: "ASRTestCaseID r = 1" "VendorConfigID r = 2"
    by (simp_all add: unnumbered_fields)
  from unset_metrics_are_stored_as_null [OF r]
  have "SER r = None \<and> CER r = None \<and> WER r = None"
    by (auto simp: ids demo_test_cases demo_vendors demo_adapters demo_recognition_failing)
  with r ids show "\<exists>r\<in>set ?added. ASRTestCaseID r = 1 \<and> VendorConfigID r = 2
      \<and> SER r = None \<and> CER r = None \<and> WER r = None"
    by blast
next
  let ?added = "added_rows demo_world (snd (RunASREvaluation demo_world 7 [1, 3] [2, 1]))"
  have "\<exists>r\<in>set ?added.
      unnumbered r = pair_result demo_world 7 demo_case_plain demo_mock MockASRAdapter"
    by (rule persisted_pair_has_row [where t = 3 and v = 1])
       (simp_all add: demo_test_cases demo_vendors demo_adapters demo_accepts)
  then obtain r where r: "r \<in> set ?added"
    and u: "unnumbered r = pair_result demo_world 7 demo_case_plain demo_mock MockASRAdapter"
    by blast
  have "ASRTestCaseID (unnumbered r) = 3" "VendorConfigID (unnumbered r) = 1"
    unfolding u by (simp_all add: pair_result_ids demo_case_plain_def demo_mock_def)
  then have ids: "ASRTestCaseID r = 3" "VendorConfigID r = 1"
    by (simp_all add: unnumbered_fields)
  have gt: "GroundTruthText demo_case_plain = None" by (simp add: demo_case_plain_def)
  from unset_metrics_are_stored_as_null [OF r]
  have "SER r = None \<and> CER r = None \<and> WER r = None"
    by (auto simp: ids demo_test_cases demo_vendors demo_adapters gt)
  with r ids show "\<exists>r\<in>set ?added. ASRTestCaseID r = 3 \<and> VendorConfigID r = 1
      \<and> SER r = None \<and> CER r = None \<and> WER r = None"
    by blast
qed



lemma CalculateCER_no_error: "gt \<noteq> [] \<Longrightarrow> snd (CalculateCER gt rtext) = None"
  by (simp add: CalculateCER_nonempty)

text \<open>
  C7. In a row stored for a pair whose test case has a non-empty ground truth and whose
  recognition succeeded, each metric holds the value its calculator returned when the
  calculator returned no error, and is unset when the calculator returned an error; the
  value that comes with the error is not stored.
\<close>

theorem degenerate_metric_is_stored_unset:
  assumes "r \<in> set (added_rows w (snd (RunASREvaluation w jobID testCaseIDs vendorConfigIDs)))"
  shows "\<exists>testCase vendorConfig adapter.
          GetASRTestCase w (ASRTestCaseID r) = Inr testCase
          \<and> GetVendorConfig w (VendorConfigID r) = Inr vendorConfig
          \<and> GetASRAdapter w (Some vendorConfig) = Inr adapter
          \<and> (\<forall>gt recognizedText rawResponse.
                GroundTruthText testCase = Some gt \<and> gt \<noteq> []
                \<and> recognition w adapter testCase vendorConfig
                    = (recognizedText, rawResponse, None)
                \<longrightarrow> CER r = (if snd (CalculateCER gt recognizedText) = None
                              then Some (fst (CalculateCER gt recognizedText)) else None)
                  \<and> WER r = (if snd (CalculateWER gt recognizedText) = None
                              then Some (fst (CalculateWER gt recognizedText)) else None))"
proof -
  from added_row_origin [OF assms] obtain tc vc a where
    o: "GetASRTestCase w (ASRTestCaseID r) = Inr tc"
       "GetVendorConfig w (VendorConfigID r) = Inr vc"
       "GetASRAdapter w (Some vc) = Inr a"
       "unnumbered r = pair_result w jobID tc vc a"
    by blast
  have f: "CER r = CER (unnumbered r)" "WER r = WER (unnumbered r)"
    by (simp_all add: unnumbered_fields)
  have "CER r = (if snd (CalculateCER gt rtext) = None
                 then Some (fst (CalculateCER gt rtext)) else None)
      \<and> WER r = (if snd (CalculateWER gt rtext) = None
                 then Some (fst (CalculateWER gt rtext)) else None)"
    if "GroundTruthText tc = Some gt \<and> gt \<noteq> []
        \<and> recognition w a tc vc = (rtext, raw, None)" for gt rtext raw
  proof -
    from that have gt: "GroundTruthText tc = Some gt" "gt \<noteq> []"
      and rec: "recognition w a tc vc = (rtext, raw, None)" by simp_all
    have u: "unnumbered r = build_result jobID tc vc rtext raw None (latency w a tc vc)"
      using o(4) rec by (simp add: pair_result_def)
    show ?thesis unfolding f u using gt by (rule build_result_metrics)
  qed
  with o(1-3) show ?thesis by blast
qed

lemma demo_blank_words:
  "snd (CalculateWER [CHR '' ''] (''Mock recognition for '' @ p
          @ '': Hello world, this is a test for language '' @ l @ ''.'')) \<noteq> None"
proof -
  have "Fields (''Mock recognition for '' @ p
          @ '': Hello world, this is a test for language '' @ l @ ''.'') \<noteq> []"
    by (simp add: Fields_def IsSpace_def fields_from_Some)
  moreover have "Fields [CHR '' ''] = []" by (simp add: Fields_def IsSpace_def)
  ultimately show ?thesis by (simp add: CalculateWER_no_words)
qed

theorem degenerate_metric_is_stored_unset_witness:
  "\<exists>r\<in>set (added_rows demo_world (snd (RunASREvaluation demo_world 7 [4] [1]))).
      ASRTestCaseID r = 4 \<and> VendorConfigID r = 1 \<and> WER r = None \<and> CER r \<noteq> None"
proof -
  let ?added = "added_rows demo_world (snd (RunASREvaluation demo_world 7 [4] [1]))"
  let ?rtext = "''Mock recognition for '' @ AudioFilePath demo_case_blank
          @ '': Hello world, this is a test for language ''
          @ String (LanguageCode demo_case_blank) @ ''.''"
  have "\<exists>r\<in>set ?added.
      unnumbered r = pair_result demo_world 7 demo_case_blank demo_mock MockASRAdapter"
    by (rule persisted_pair_has_row [where t = 4 and v = 1])
       (simp_all add: demo_test_cases demo_vendors demo_adapters demo_accepts)
  then obtain r where r: "r \<in> set ?added"
    and u: "unnumbered r = pair_result demo_world 7 demo_case_blank demo_mock MockASRAdapter"
    by blast
  have "ASRTestCaseID (unnumbered r) = 4" "VendorConfigID (unnumbered r) = 1"
    unfolding u by (simp_all add: pair_result_ids demo_case_blank_def demo_mock_def)
  then have ids: "ASRTestCaseID r = 4" "VendorConfigID r = 1"
    by (simp_all add: unnumbered_fields)
  have gt: "GroundTruthText demo_case_blank = Some [CHR '' ''] \<and> [CHR '' ''] \<noteq> []"
    by (simp add: demo_case_blank_def)
  from degenerate_metric_is_stored_unset [OF r]
  have "CER r = (if snd (CalculateCER [CHR '' ''] ?rtext) = None
                 then Some (fst (CalculateCER [CHR '' ''] ?rtext)) else None)
      \<and> WER r = (if snd (CalculateWER [CHR '' ''] ?rtext) = None
                 then Some (fst (CalculateWER [CHR '' ''] ?rtext)) else None)"
    using gt demo_recognition_mock [of demo_case_blank]
    by (auto simp: ids demo_test_cases demo_vendors demo_adapters)
  then have "WER r = None \<and> CER r \<noteq> None"
    using demo_blank_words [of "AudioFilePath demo_case_blank"
        "String (LanguageCode demo_case_blank)"]
      CalculateCER_no_error [of "[CHR '' '']" ?rtext]
    by simp
  with r ids show ?thesis by blast
qed



section \<open>How many rows a run stores\<close>

lemma pair_persists_iff:
  "pair_persists w j t v \<longleftrightarrow>
     (\<exists>tc. GetASRTestCase w t = Inr tc \<and> pair_rows w j tc v \<noteq> [])"
  by (auto simp: pair_persists_def pair_rows_def split: sum.splits)

lemma pair_rows_fields:
  assumes "r \<in> set (pair_rows w j tc v)"
  shows "ASRTestCaseID r = ASRTestCase.ID tc" and "VendorConfigID r = v"
proof -
  from pair_rows_member [OF assms] obtain vc a where
    o: "GetVendorConfig w v = Inr vc" "r = pair_result w j tc vc a" by blast
  show "ASRTestCaseID r = ASRTestCase.ID tc" using o(2) by (simp add: pair_result_ids)
  show "VendorConfigID r = v" using o GetVendorConfig_ID [OF o(1)] by (simp add: pair_result_ids)
qed

lemma pair_rows_length: "length (pair_rows w j tc v) = (if pair_rows w j tc v = [] then 0 else 1)"
  by (simp add: pair_rows_def split: sum.splits)

lemma pair_rows_count:
  "length (filter (\<lambda>r. ASRTestCaseID r = t \<and> VendorConfigID r = v) (pair_rows w j tc v'))
     = (if v' = v \<and> ASRTestCase.ID tc = t \<and> pair_rows w j tc v \<noteq> [] then 1 else 0)"
proof (cases "v' = v \<and> ASRTestCase.ID tc = t")
  case True
  then have "filter (\<lambda>r. ASRTestCaseID r = t \<and> VendorConfigID r = v) (pair_rows w j tc v')
      = pair_rows w j tc v"
    by (auto simp: filter_id_conv pair_rows_fields)
  with True show ?thesis using pair_rows_length [of w j tc v] by simp
next
  case False
  then have "filter (\<lambda>r. ASRTestCaseID r = t \<and> VendorConfigID r = v) (pair_rows w j tc v') = []"
    by (auto simp: filter_empty_conv pair_rows_fields)
  with False show ?thesis by auto
qed

lemma vendor_rows_count:
  "length (filter (\<lambda>r. ASRTestCaseID r = t \<and> VendorConfigID r = v)
             (concat (map (pair_rows w j tc) vs)))
     = (if ASRTestCase.ID tc = t \<and> pair_rows w j tc v \<noteq> [] then count_list vs v else 0)"
  by (induction vs) (simp_all add: pair_rows_count)

lemma test_case_rows_count:
  "length (filter (\<lambda>r. ASRTestCaseID r = t \<and> VendorConfigID r = v) (test_case_rows w j vs t'))
     = (if t' = t \<and> pair_persists w j t v then count_list vs v else 0)"
proof (cases "GetASRTestCase w t'")
  case (Inl err)
  then show ?thesis by (auto simp: test_case_rows_def pair_persists_iff)
next
  case (Inr tc)
  have id: "ASRTestCase.ID tc = t'" using Inr by (rule GetASRTestCase_ID)
  show ?thesis using Inr id
    by (auto simp: test_case_rows_def vendor_rows_count pair_persists_iff)
qed

lemma job_rows_count:
  "length (filter (\<lambda>r. ASRTestCaseID r = t \<and> VendorConfigID r = v) (job_rows w j ts vs))
     = count_list ts t * count_list vs v * (if pair_persists w j t v then 1 else 0)"
  by (induction ts) (simp_all add: job_rows_def test_case_rows_count)

lemma added_rows_count:
  "length (filter (\<lambda>r. ASRTestCaseID r = t \<and> VendorConfigID r = v)
             (added_rows w (snd (RunASREvaluation w j ts vs))))
     = count_list ts t * count_list vs v * (if pair_persists w j t v then 1 else 0)"
proof -
  let ?added = "added_rows w (snd (RunASREvaluation w j ts vs))"
  let ?P = "\<lambda>r. ASRTestCaseID r = t \<and> VendorConfigID r = v"
  have m: "map unnumbered ?added = (if DB w = None then [] else job_rows w j ts vs)"
    by (rule extends_added_rows) (rule RunASREvaluation_extends)
  have "length (filter ?P ?added) = length (filter ?P (map unnumbered ?added))"
    by (simp add: filter_map comp_def unnumbered_fields)
  also have "\<dots> = count_list ts t * count_list vs v * (if pair_persists w j t v then 1 else 0)"
  proof (cases "DB w")
    case None
    then have "\<not> pair_persists w j t v" by (simp add: pair_persists_def GetASRTestCase_def)
    with None m show ?thesis by simp
  next
    case (Some db)
    with m show ?thesis by (simp add: job_rows_count)
  qed
  finally show ?thesis .
qed

lemma added_rows_length:
  "length (added_rows w (snd (RunASREvaluation w j ts vs)))
     = (if DB w = None then 0 else length (job_rows w j ts vs))"
proof -
  have "map unnumbered (added_rows w (snd (RunASREvaluation w j ts vs)))
      = (if DB w = None then [] else job_rows w j ts vs)"
    by (rule extends_added_rows) (rule RunASREvaluation_extends)
  then have "length (map unnumbered (added_rows w (snd (RunASREvaluation w j ts vs))))
      = length (if DB w = None then [] else job_rows w j ts vs)"
    by (rule arg_cong)
  then show ?thesis by (simp split: if_splits)
qed

lemma test_case_rows_all_persist:
  assumes "\<forall>v\<in>set vs. pair_persists w j t v"
  shows "length (test_case_rows w j vs t) = length vs"
proof (cases "GetASRTestCase w t")
  case (Inl err)
  with assms have "vs = []" by (cases vs) (auto simp: pair_persists_def)
  with Inl show ?thesis by (simp add: test_case_rows_def)
next
  case (Inr tc)
  have "\<forall>v\<in>set vs. length (pair_rows w j tc v) = 1"
    using assms Inr pair_rows_length [of w j tc] by (auto simp: pair_persists_iff)
  then have "length (concat (map (pair_rows w j tc) vs)) = length vs"
    by (induction vs) simp_all
  with Inr show ?thesis by (simp add: test_case_rows_def)
qed

lemma test_case_rows_failed: "GetASRTestCase w t = Inl e \<Longrightarrow> test_case_rows w j vs t = []"
  by (simp add: test_case_rows_def)

text \<open>
  C2, as the code has it. The number of rows a run stores for the pair of a test case id
  and a vendor configuration id is the number of times the pair occurs in the two lists
  of ids when the test case is found, the vendor configuration is found, an adapter is
  obtained for it and the driver takes the insertion, and zero otherwise; what the
  recognition call returned makes no difference. A test case that is not found has no
  row with any vendor. For three test case ids of which the second is not found while
  all pairs of the first and the third get their rows, the run stores twice as many rows
  as there are vendor ids, all of them for the first and the third test case.
\<close>

theorem stored_rows_per_pair:
  "length (filter (\<lambda>r. ASRTestCaseID r = t \<and> VendorConfigID r = v)
             (added_rows w (snd (RunASREvaluation w jobID testCaseIDs vendorConfigIDs))))
     = count_list testCaseIDs t * count_list vendorConfigIDs v
         * (if pair_persists w jobID t v then 1 else 0)
   \<and> ((\<exists>e. GetASRTestCase w t = Inl e) \<longrightarrow>
        list_all (\<lambda>r. ASRTestCaseID r \<noteq> t)
          (added_rows w (snd (RunASREvaluation w jobID testCaseIDs vendorConfigIDs))))
   \<and> ((\<exists>e. GetASRTestCase w t2 = Inl e)
        \<and> (\<forall>v'\<in>set vendorConfigIDs.
              pair_persists w jobID t1 v' \<and> pair_persists w jobID t3 v') \<longrightarrow>
        length (added_rows w (snd (RunASREvaluation w jobID [t1, t2, t3] vendorConfigIDs)))
          = 2 * length vendorConfigIDs
        \<and> list_all (\<lambda>r. ASRTestCaseID r = t1 \<or> ASRTestCaseID r = t3)
            (added_rows w (snd (RunASREvaluation w jobID [t1, t2, t3] vendorConfigIDs))))"
proof (intro conjI impI)
  show "length (filter (\<lambda>r. ASRTestCaseID r = t \<and> VendorConfigID r = v)
             (added_rows w (snd (RunASREvaluation w jobID testCaseIDs vendorConfigIDs))))
     = count_list testCaseIDs t * count_list vendorConfigIDs v
         * (if pair_persists w jobID t v then 1 else 0)"
    by (rule added_rows_count)
next
  assume "\<exists>e. GetASRTestCase w t = Inl e"
  then obtain e where e: "GetASRTestCase w t = Inl e" ..
  show "list_all (\<lambda>r. ASRTestCaseID r \<noteq> t)
          (added_rows w (snd (RunASREvaluation w jobID testCaseIDs vendorConfigIDs)))"
    unfolding list_all_iff
  proof
    fix r
    assume "r \<in> set (added_rows w (snd (RunASREvaluation w jobID testCaseIDs vendorConfigIDs)))"
    from added_row_origin [OF this] obtain tc where
      "GetASRTestCase w (ASRTestCaseID r) = Inr tc" by blast
    with e show "ASRTestCaseID r \<noteq> t" by auto
  qed
next
  assume a: "(\<exists>e. GetASRTestCase w t2 = Inl e)
        \<and> (\<forall>v'\<in>set vendorConfigIDs.
              pair_persists w jobID t1 v' \<and> pair_persists w jobID t3 v')"
  then obtain e where e: "GetASRTestCase w t2 = Inl e" by blast
  from a have p1: "\<forall>v'\<in>set vendorConfigIDs. pair_persists w jobID t1 v'"
    and p3: "\<forall>v'\<in>set vendorConfigIDs. pair_persists w jobID t3 v'" by simp_all
  have len: "length (job_rows w jobID [t1, t2, t3] vendorConfigIDs) = 2 * length vendorConfigIDs"
    using test_case_rows_all_persist [OF p1] test_case_rows_all_persist [OF p3]
      test_case_rows_failed [OF e]
    by (simp add: job_rows_def)
  show "length (added_rows w (snd (RunASREvaluation w jobID [t1, t2, t3] vendorConfigIDs)))
          = 2 * length vendorConfigIDs"
  proof (cases "DB w")
    case None
    then have "\<not> pair_persists w jobID t1 v'" for v'
      by (simp add: pair_persists_def GetASRTestCase_def)
    with p1 have "vendorConfigIDs = []" by (cases vendorConfigIDs) auto
    with None show ?thesis by (simp add: added_rows_length)
  next
    case (Some db)
    with len show ?thesis by (simp add: added_rows_length)
  qed
next
  assume a: "(\<exists>e. GetASRTestCase w t2 = Inl e)
        \<and> (\<forall>v'\<in>set vendorConfigIDs.
              pair_persists w jobID t1 v' \<and> pair_persists w jobID t3 v')"
  then obtain e where e: "GetASRTestCase w t2 = Inl e" by blast
  show "list_all (\<lambda>r. ASRTestCaseID r = t1 \<or> ASRTestCaseID r = t3)
            (added_rows w (snd (RunASREvaluation w jobID [t1, t2, t3] vendorConfigIDs)))"
    unfolding list_all_iff
  proof
    fix r
    assume "r \<in> set (added_rows w (snd (RunASREvaluation w jobID [t1, t2, t3] vendorConfigIDs)))"
    from added_row_origin [OF this] obtain tc where
      "ASRTestCaseID r \<in> set [t1, t2, t3]" "GetASRTestCase w (ASRTestCaseID r) = Inr tc"
      by blast
    with e show "ASRTestCaseID r = t1 \<or> ASRTestCaseID r = t3" by auto
  qed
qed

lemma demo_pair_persists:
  "pair_persists demo_world j 1 1" "pair_persists demo_world j 1 2"
  "pair_persists demo_world j 3 1" "pair_persists demo_world j 3 2"
  "\<not> pair_persists demo_world j 1 3"
  by (simp_all add: pair_persists_def demo_test_cases demo_vendors demo_adapters demo_accepts)

theorem stored_rows_per_pair_witness:
  "length (filter (\<lambda>r. ASRTestCaseID r = 1 \<and> VendorConfigID r = 2)
             (added_rows demo_world (snd (RunASREvaluation demo_world 7 [1, 2, 3] [1, 2])))) = 1
   \<and> (\<exists>e. GetASRTestCase demo_world 2 = Inl e)
   \<and> list_all (\<lambda>r. ASRTestCaseID r \<noteq> 2)
        (added_rows demo_world (snd (RunASREvaluation demo_world 7 [1, 2, 3] [1, 2])))
   \<and> pair_persists demo_world 7 1 1 \<and> pair_persists demo_world 7 1 2
   \<and> pair_persists demo_world 7 3 1 \<and> pair_persists demo_world 7 3 2
   \<and> length (added_rows demo_world (snd (RunASREvaluation demo_world 7 [1, 2, 3] [1, 2]))) = 4
   \<and> list_all (\<lambda>r. ASRTestCaseID r = 1 \<or> ASRTestCaseID r = 3)
        (added_rows demo_world (snd (RunASREvaluation demo_world 7 [1, 2, 3] [1, 2])))"
proof -
  have f: "\<exists>e. GetASRTestCase demo_world 2 = Inl e" by (simp add: demo_test_cases)
  have p: "\<forall>v'\<in>set [1, 2]. pair_persists demo_world 7 1 v' \<and> pair_persists demo_world 7 3 v'"
    by (simp add: demo_pair_persists)
  note t = stored_rows_per_pair [of 1 2 demo_world 7 "[1, 2, 3]" "[1, 2]" 2 1 3]
  from t have "length (filter (\<lambda>r. ASRTestCaseID r = 1 \<and> VendorConfigID r = 2)
             (added_rows demo_world (snd (RunASREvaluation demo_world 7 [1, 2, 3] [1, 2])))) = 1"
    by (simp add: demo_pair_persists)
  moreover
  from stored_rows_per_pair [of 2 2 demo_world 7 "[1, 2, 3]" "[1, 2]" 2 1 3] f
  have "list_all (\<lambda>r. ASRTestCaseID r \<noteq> 2)
        (added_rows demo_world (snd (RunASREvaluation demo_world 7 [1, 2, 3] [1, 2])))"
    by blast
  moreover
  from t f p
  have "length (added_rows demo_world (snd (RunASREvaluation demo_world 7 [1, 2, 3] [1, 2])))
          = 2 * length [1 :: int, 2]
      \<and> list_all (\<lambda>r. ASRTestCaseID r = 1 \<or> ASRTestCaseID r = 3)
        (added_rows demo_world (snd (RunASREvaluation demo_world 7 [1, 2, 3] [1, 2])))"
    by blast
  ultimately show ?thesis using f by (simp add: demo_pair_persists)
qed

text \<open>
  The claim C2 as the specification states it fails in two ways. With no object store
  client, the test case 1 and the vendor configuration 3 (a real vendor) are both found,
  yet the run stores no row for the pair, because no adapter is obtained for the vendor.
  With a driver that refuses the insertion, the test case 1 and the vendor configuration
  1 are found, the mock adapter is obtained and the recognition succeeds, yet no row is
  stored for the pair. The run returns no error either time.
\<close>

theorem one_row_per_resolved_pair_counterexample:
  "GetASRTestCase demo_world 1 = Inr demo_case_hello
   \<and> GetVendorConfig demo_world 3 = Inr demo_google
   \<and> fst (RunASREvaluation demo_world 7 [1] [3]) = None
   \<and> length (filter (\<lambda>r. ASRTestCaseID r = 1 \<and> VendorConfigID r = 3)
        (added_rows demo_world (snd (RunASREvaluation demo_world 7 [1] [3])))) \<noteq> 1
   \<and> added_rows demo_world (snd (RunASREvaluation demo_world 7 [1] [3])) = []
   \<and> GetASRTestCase demo_world_refusing 1 = Inr demo_case_hello
   \<and> GetVendorConfig demo_world_refusing 1 = Inr demo_mock
   \<and> GetASRAdapter demo_world_refusing (Some demo_mock) = Inr MockASRAdapter
   \<and> snd (snd (recognition demo_world_refusing MockASRAdapter demo_case_hello demo_mock)) = None
   \<and> fst (RunASREvaluation demo_world_refusing 7 [1] [1]) = None
   \<and> length (filter (\<lambda>r. ASRTestCaseID r = 1 \<and> VendorConfigID r = 1)
        (added_rows demo_world_refusing
           (snd (RunASREvaluation demo_world_refusing 7 [1] [1])))) \<noteq> 1
   \<and> added_rows demo_world_refusing (snd (RunASREvaluation demo_world_refusing 7 [1] [1])) = []"
proof -
  have "length (added_rows demo_world (snd (RunASREvaluation demo_world 7 [1] [3])))
      = length (job_rows demo_world 7 [1] [3])"
    by (simp add: added_rows_length demo_world_def)
  also have "\<dots> = 0"
    by (simp add: job_rows_def test_case_rows_def pair_rows_def demo_test_cases demo_vendors
        demo_adapters)
  finally have a: "added_rows demo_world (snd (RunASREvaluation demo_world 7 [1] [3])) = []"
    by simp
  have b: "fst (RunASREvaluation demo_world 7 [1] [3]) = None"
    by (simp add: RunASREvaluation_def demo_world_def)
  have t: "GetASRTestCase demo_world_refusing 1 = Inr demo_case_hello"
    by (simp add: GetASRTestCase_def QueryRow_def demo_world_refusing_def demo_world_def
        demo_db_def demo_case_hello_def)
  have v: "GetVendorConfig demo_world_refusing 1 = Inr demo_mock"
    by (simp add: GetVendorConfig_def QueryRow_def demo_world_refusing_def demo_world_def
        demo_db_def demo_mock_def)
  have g: "GetASRAdapter demo_world_refusing (Some demo_mock) = Inr MockASRAdapter"
    by (simp add: GetASRAdapter_def demo_mock_def)
  have r: "snd (snd (recognition demo_world_refusing MockASRAdapter demo_case_hello demo_mock))
      = None"
    by (simp add: recognition_def MockASRAdapter_Recognize_def demo_mock_def Let_def)
  have n: "\<not> accepts demo_world_refusing x" for x
    by (simp add: accepts_def demo_world_refusing_def demo_world_def)
  have "length (added_rows demo_world_refusing
           (snd (RunASREvaluation demo_world_refusing 7 [1] [1])))
      = length (job_rows demo_world_refusing 7 [1] [1])"
    by (simp add: added_rows_length demo_world_refusing_def demo_world_def)
  also have "\<dots> = 0"
    by (simp add: job_rows_def test_case_rows_def pair_rows_def t v g n)
  finally have c: "added_rows demo_world_refusing
      (snd (RunASREvaluation demo_world_refusing 7 [1] [1])) = []"
    by simp
  have d: "fst (RunASREvaluation demo_world_refusing 7 [1] [1]) = None"
    by (simp add: RunASREvaluation_def demo_world_refusing_def demo_world_def)
  from a b c d t v g r show ?thesis by (simp add: demo_test_cases demo_vendors)
qed

section \<open>The table of jobs\<close>

lemma foldr_max_ge: "x \<in> set ids \<Longrightarrow> x \<le> foldr max ids (0::int)"
  by (induction ids) auto

lemma new_id_fresh: "new_id ids \<notin> set ids"
  using foldr_max_ge [of "new_id ids" ids] by (auto simp: new_id_def)

lemma find_append_new:
  "\<forall>x\<in>set xs. \<not> P x \<Longrightarrow> P y \<Longrightarrow> find P (xs @ [y]) = Some y"
  by (induction xs) auto








lemma CreateEvaluationJob_status:
  assumes "CreateEvaluationJob w job = ((jobID, None), w1)"
  shows "job_status w1 jobID = Some (Status job)"
proof (cases "DB w")
  case None
  with assms show ?thesis by (simp add: CreateEvaluationJob_def)
next
  case (Some db)
  let ?ids = "map EvaluationJob.ID (evaluation_jobs db)"
  let ?row = "job\<lparr>EvaluationJob.ID := new_id ?ids,
      VendorConfigIDs := (if VendorConfigIDs job \<noteq> [] then VendorConfigIDs job else ''[]''),
      TestCaseIDs := (if TestCaseIDs job \<noteq> [] then TestCaseIDs job else ''[]''),
      Parameters := (if Parameters job \<noteq> [] then Parameters job else ''null'')\<rparr>"
  from assms Some have d: "driver_error db (Insert_evaluation_jobs job) = None"
    by (auto simp: CreateEvaluationJob_def Let_def split: option.splits)
  with assms Some have id: "jobID = new_id ?ids"
    and w1: "w1 = w\<lparr>DB := Some (db\<lparr>evaluation_jobs := evaluation_jobs db @ [?row]\<rparr>)\<rparr>"
    by (auto simp: CreateEvaluationJob_def Let_def)
  have "\<forall>x\<in>set (evaluation_jobs db). \<not> EvaluationJob.ID x = jobID"
    using new_id_fresh [of ?ids] id by force
  then have "find (\<lambda>j. EvaluationJob.ID j = jobID) (evaluation_jobs db @ [?row]) = Some ?row"
    by (rule find_append_new) (simp add: id)
  then show ?thesis by (simp add: job_status_def job_row_def w1)
qed









section \<open>The status of a job\<close>

















end
